theory Spec2Isabelle
  imports Main "HOL-Library.Word" "HOL-Library.Sublist" "HOL-Library.Product_Lexorder"
begin

section \<open>Raster images\<close>

text \<open>
  The two scripts \<^verbatim>\<open>scripts/generate-icons.py\<close> and \<^verbatim>\<open>scripts/simple-icon-gen.py\<close>
  build their icons from calls into the imaging library. An image object has a size
  and one value per pixel; the mode strings \<^verbatim>\<open>'L'\<close> and \<^verbatim>\<open>'RGBA'\<close> are literals at every
  call site, so the mode is carried by the pixel type: a byte for a mask, four bytes
  for a colour image. Rows are stored top to bottom.
\<close>

type_synonym byte = "8 word"
type_synonym rgba = "byte \<times> byte \<times> byte \<times> byte"

record 'p image =
  width :: nat
  height :: nat
  pixels :: "'p list list"

datatype exn =
  ValueError | FileNotFoundError | FileExistsError | NotADirectoryError
  | OSError | UnidentifiedImageError | ParseError | OverflowError | MemoryError
  | SystemExit int

definition and_then :: "exn + 'a \<Rightarrow> ('a \<Rightarrow> exn + 'b) \<Rightarrow> exn + 'b" where
  "and_then m f = (case m of Inl e \<Rightarrow> Inl e | Inr x \<Rightarrow> f x)"

definition raster :: "nat \<Rightarrow> nat \<Rightarrow> (nat \<Rightarrow> nat \<Rightarrow> 'p) \<Rightarrow> 'p list list" where
  "raster w h f = map (\<lambda>y. map (\<lambda>x. f x y) [0..<w]) [0..<h]"

definition getpixel :: "'p image \<Rightarrow> nat \<Rightarrow> nat \<Rightarrow> 'p" where
  "getpixel im x y = pixels im ! y ! x"

text \<open>
  \<^verbatim>\<open>int(x)\<close> of a quotient truncates towards zero. The scripts divide integers by
  \<^verbatim>\<open>100\<close> and multiply a size by constants over \<^verbatim>\<open>512.0\<close>. For every size an image
  can have (below \<open>2 ^ 31\<close>) the latter products are exact in binary floating point,
  and the quotient by \<^verbatim>\<open>100\<close> is rounded by less than the distance to the next
  integer while the dividend stays below \<open>2 ^ 53\<close>; there the truncated quotient of
  integers is what the code computes.
\<close>

definition trunc_quot :: "int \<Rightarrow> int \<Rightarrow> int" where
  "trunc_quot a b = (if 0 \<le> a then a div b else - ((- a) div b))"

section \<open>The library's kernels\<close>

text \<open>
  The scan conversion of shapes, the blur, the blend of a masked paste and the
  resampling filter are the imaging library's own code. They are parameters of the
  model: \<open>interior\<close> says whether a pixel is painted by a filled shape, \<open>stroke\<close>
  whether it is painted by an outline or line of a given width, \<open>gaussian\<close> gives a
  blurred pixel from the source raster, \<open>blend\<close> mixes destination and source under a
  mask byte, \<open>lanczos\<close> gives a resampled pixel for a target size, \<open>thumbnail\<close>
  shrinks an image into a bounding size. The last field, \<open>wave size x\<close>, is the
  vertical offset \<^verbatim>\<open>int(10 * s * math.sin((x - 210 * s) * 0.1))\<close> of a crack line at
  abscissa \<open>x\<close>: a transcendental function in floating point, kept as a parameter.
\<close>

datatype shape =
  Ellipse int int int int
  | Rectangle int int int int
  | RoundedRectangle int int int int int
  | Polygon "(int \<times> int) list"
  | Line int int int int

record lib =
  interior :: "shape \<Rightarrow> int \<Rightarrow> int \<Rightarrow> bool"
  stroke :: "shape \<Rightarrow> int \<Rightarrow> int \<Rightarrow> int \<Rightarrow> bool"
  gaussian :: "int \<Rightarrow> rgba list list \<Rightarrow> nat \<Rightarrow> nat \<Rightarrow> rgba"
  blend :: "byte \<Rightarrow> byte \<Rightarrow> byte \<Rightarrow> byte"
  lanczos :: "rgba image \<Rightarrow> nat \<Rightarrow> nat \<Rightarrow> nat \<Rightarrow> nat \<Rightarrow> rgba"
  thumbnail :: "rgba image \<Rightarrow> nat \<times> nat \<Rightarrow> rgba image"
  wave :: "int \<Rightarrow> int \<Rightarrow> int"
  memory_limit :: nat

text \<open>
  \<^verbatim>\<open>Image.new(mode, size, color)\<close>: a canvas filled with one colour. The library raises
  \<^verbatim>\<open>ValueError\<close> for a negative width or height, \<^verbatim>\<open>OverflowError\<close> for a width or
  height of \<open>2 ^ 31\<close> or more, and \<^verbatim>\<open>MemoryError\<close> when it cannot obtain the canvas. How
  many pixels can be obtained is the environment's, the field \<open>memory_limit\<close>; canvases
  of up to \<open>2 ^ 20\<close> pixels are taken to be obtainable in every environment (the
  largest canvas the scripts ask for is 520 by 520).
\<close>

definition allocatable :: "lib \<Rightarrow> nat \<Rightarrow> nat \<Rightarrow> bool" where
  "allocatable L w h = (w < 2 ^ 31 \<and> h < 2 ^ 31 \<and> w * h \<le> max 1048576 (memory_limit L))"

definition Image_new :: "lib \<Rightarrow> int \<times> int \<Rightarrow> 'p \<Rightarrow> exn + 'p image" where
  "Image_new L sz color =
     (if fst sz < 0 \<or> snd sz < 0 then Inl ValueError
      else if 2 ^ 31 \<le> fst sz \<or> 2 ^ 31 \<le> snd sz then Inl OverflowError
      else if max 1048576 (memory_limit L) < nat (fst sz) * nat (snd sz) then Inl MemoryError
      else Inr \<lparr>width = nat (fst sz), height = nat (snd sz),
                pixels = raster (nat (fst sz)) (nat (snd sz)) (\<lambda>x y. color)\<rparr>)"

text \<open>
  A drawing call names a shape, a fill, an outline and a stroke width. The library
  rejects a box whose second corner lies before the first with \<^verbatim>\<open>ValueError\<close>
  (\<^verbatim>\<open>x1 must be greater than or equal to x0\<close>), a rounded rectangle with a negative
  radius, and a polygon with fewer than two points. The fill is painted first and the outline over it; a line is painted in
  its fill colour.
\<close>

record 'c call =
  shape_of :: shape
  fill :: "'c option"
  outline :: "'c option"
  stroke_width :: int

fun shape_ok :: "shape \<Rightarrow> bool" where
  "shape_ok (Ellipse x0 y0 x1 y1) = (x0 \<le> x1 \<and> y0 \<le> y1)"
| "shape_ok (Rectangle x0 y0 x1 y1) = (x0 \<le> x1 \<and> y0 \<le> y1)"
| "shape_ok (RoundedRectangle x0 y0 x1 y1 r) = (x0 \<le> x1 \<and> y0 \<le> y1 \<and> 0 \<le> r)"
| "shape_ok (Polygon pts) = (2 \<le> length pts)"
| "shape_ok (Line x0 y0 x1 y1) = True"

fun is_line :: "shape \<Rightarrow> bool" where
  "is_line (Line x0 y0 x1 y1) = True"
| "is_line s = False"

definition paint :: "lib \<Rightarrow> 'c call \<Rightarrow> nat \<Rightarrow> nat \<Rightarrow> 'c \<Rightarrow> 'c" where
  "paint L c x y old =
     (if is_line (shape_of c) then
        (case fill c of
           Some ink \<Rightarrow> if stroke L (shape_of c) (stroke_width c) (int x) (int y) then ink else old
         | None \<Rightarrow> old)
      else
        (case outline c of
           Some ink \<Rightarrow>
             if outline c \<noteq> fill c \<and> stroke_width c \<noteq> 0
                \<and> stroke L (shape_of c) (stroke_width c) (int x) (int y)
             then ink
             else (case fill c of
                     Some f \<Rightarrow> if interior L (shape_of c) (int x) (int y) then f else old
                   | None \<Rightarrow> old)
         | None \<Rightarrow>
             (case fill c of
                Some f \<Rightarrow> if interior L (shape_of c) (int x) (int y) then f else old
              | None \<Rightarrow> old)))"

definition draw :: "lib \<Rightarrow> 'c image \<Rightarrow> 'c call \<Rightarrow> exn + 'c image" where
  "draw L im c =
     (if shape_ok (shape_of c)
      then Inr (im\<lparr>pixels := raster (width im) (height im)
                               (\<lambda>x y. paint L c x y (getpixel im x y))\<rparr>)
      else Inl ValueError)"

section \<open>Image objects in a store\<close>

text \<open>
  The post-processing functions take an image object and build new ones, and
  \<^verbatim>\<open>paste\<close> and \<^verbatim>\<open>putalpha\<close> change their receiver in place. Colour images
  therefore live in a store, a list indexed by reference; \<^verbatim>\<open>Image.new\<close> extends it.
\<close>

type_synonym ref = nat
type_synonym heap = "rgba image list"

definition alloc :: "heap \<Rightarrow> rgba image \<Rightarrow> ref \<times> heap" where
  "alloc h im = (length h, h @ [im])"

definition new_RGBA :: "lib \<Rightarrow> heap \<Rightarrow> int \<times> int \<Rightarrow> rgba \<Rightarrow> exn + (ref \<times> heap)" where
  "new_RGBA L h sz color = and_then (Image_new L sz color) (\<lambda>im. Inr (alloc h im))"

text \<open>
  \<^verbatim>\<open>dst.paste(src, (dx, dy))\<close> copies the source over the destination at the offset,
  clipped to the destination; with a mask the two are blended per channel under the
  mask's alpha. The library requires mask and source to have one size.
\<close>

definition in_box :: "int \<times> int \<Rightarrow> 'p image \<Rightarrow> nat \<Rightarrow> nat \<Rightarrow> bool" where
  "in_box off src x y =
     (fst off \<le> int x \<and> int x < fst off + int (width src)
      \<and> snd off \<le> int y \<and> int y < snd off + int (height src))"

definition paste_image :: "rgba image \<Rightarrow> rgba image \<Rightarrow> int \<times> int \<Rightarrow> rgba image" where
  "paste_image dst src off =
     dst\<lparr>pixels := raster (width dst) (height dst)
        (\<lambda>x y. if in_box off src x y
                then getpixel src (nat (int x - fst off)) (nat (int y - snd off))
                else getpixel dst x y)\<rparr>"

definition blend_rgba :: "lib \<Rightarrow> byte \<Rightarrow> rgba \<Rightarrow> rgba \<Rightarrow> rgba" where
  "blend_rgba L m d s =
     (case d of (dr, dg, db, da) \<Rightarrow> case s of (sr, sg, sb, sa) \<Rightarrow>
        (blend L m dr sr, blend L m dg sg, blend L m db sb, blend L m da sa))"

definition alpha_of :: "rgba \<Rightarrow> byte" where
  "alpha_of p = (case p of (r, g, b, a) \<Rightarrow> a)"

definition paste_masked ::
  "lib \<Rightarrow> rgba image \<Rightarrow> rgba image \<Rightarrow> int \<times> int \<Rightarrow> rgba image \<Rightarrow> exn + rgba image" where
  "paste_masked L dst src off msk =
     (if width msk \<noteq> width src \<or> height msk \<noteq> height src then Inl ValueError
      else Inr (dst\<lparr>pixels := raster (width dst) (height dst)
        (\<lambda>x y. if in_box off src x y
                then blend_rgba L
                       (alpha_of (getpixel msk (nat (int x - fst off)) (nat (int y - snd off))))
                       (getpixel dst x y)
                       (getpixel src (nat (int x - fst off)) (nat (int y - snd off)))
                else getpixel dst x y)\<rparr>))"

definition paste :: "heap \<Rightarrow> ref \<Rightarrow> ref \<Rightarrow> int \<times> int \<Rightarrow> heap" where
  "paste h dst src off = h[dst := paste_image (h ! dst) (h ! src) off]"

definition paste_with_mask ::
  "lib \<Rightarrow> heap \<Rightarrow> ref \<Rightarrow> ref \<Rightarrow> int \<times> int \<Rightarrow> ref \<Rightarrow> exn + heap" where
  "paste_with_mask L h dst src off msk =
     and_then (paste_masked L (h ! dst) (h ! src) off (h ! msk))
       (\<lambda>im. Inr (h[dst := im]))"

text \<open>
  \<^verbatim>\<open>im.putalpha(mask)\<close> replaces the alpha band of the receiver by the mask, pixel by
  pixel; the library raises \<^verbatim>\<open>ValueError\<close> when the sizes differ.
\<close>

definition set_alpha :: "rgba \<Rightarrow> byte \<Rightarrow> rgba" where
  "set_alpha p a = (case p of (r, g, b, old) \<Rightarrow> (r, g, b, a))"

definition putalpha_image :: "rgba image \<Rightarrow> byte image \<Rightarrow> exn + rgba image" where
  "putalpha_image im msk =
     (if width msk \<noteq> width im \<or> height msk \<noteq> height im then Inl ValueError
      else Inr (im\<lparr>pixels := raster (width im) (height im)
                  (\<lambda>x y. set_alpha (getpixel im x y) (getpixel msk x y))\<rparr>))"

definition putalpha :: "heap \<Rightarrow> ref \<Rightarrow> byte image \<Rightarrow> exn + heap" where
  "putalpha h r msk = and_then (putalpha_image (h ! r) msk) (\<lambda>im. Inr (h[r := im]))"

text \<open>
  \<^verbatim>\<open>im.filter(ImageFilter.GaussianBlur(radius))\<close> returns a new image of the same size.
\<close>

definition filter_GaussianBlur :: "lib \<Rightarrow> heap \<Rightarrow> ref \<Rightarrow> int \<Rightarrow> ref \<times> heap" where
  "filter_GaussianBlur L h r radius =
     alloc h ((h ! r)\<lparr>pixels := raster (width (h ! r)) (height (h ! r))
                                   (gaussian L radius (pixels (h ! r)))\<rparr>)"

section \<open>Post-processing filters\<close>

text \<open>
  \<^verbatim>\<open>create_rounded_icon(image, radius_percent=20)\<close>, the same in both scripts. The mask
  is a local object that never escapes and is kept as a value; the result is
  allocated in the store and changed in place by \<^verbatim>\<open>paste\<close> and \<^verbatim>\<open>putalpha\<close>.
\<close>

definition rounded_mask_call :: "int \<Rightarrow> int \<Rightarrow> byte call" where
  "rounded_mask_call sz radius =
     \<lparr>shape_of = RoundedRectangle 0 0 sz sz radius, fill = Some 255, outline = None,
      stroke_width = 1\<rparr>"

definition create_rounded_icon :: "lib \<Rightarrow> heap \<Rightarrow> ref \<Rightarrow> int \<Rightarrow> exn + (ref \<times> heap)" where
  "create_rounded_icon L h img radius_percent =
     (let sz = int (width (h ! img));
          radius = trunc_quot (sz * radius_percent) 100
      in and_then (Image_new L (sz, sz) (0 :: byte)) (\<lambda>mask0.
         and_then (draw L mask0 (rounded_mask_call sz radius)) (\<lambda>msk.
         and_then (new_RGBA L h (sz, sz) (0, 0, 0, 0)) (\<lambda>(result, h1).
         and_then (putalpha (paste h1 result img (0, 0)) result msk) (\<lambda>h2.
         Inr (result, h2))))))"

text \<open>
  The pixel that corner rounding leaves at \<open>(x, y)\<close>, in closed form: the colour of the
  source where the source has a row \<open>y\<close> and black elsewhere, under the alpha the mask
  has there. It is proved below to be what \<open>create_rounded_icon\<close> computes.
\<close>

definition rounded_pixel :: "lib \<Rightarrow> rgba image \<Rightarrow> int \<Rightarrow> nat \<Rightarrow> nat \<Rightarrow> rgba" where
  "rounded_pixel L src p x y =
     set_alpha (if y < height src then getpixel src x y else (0, 0, 0, 0))
       (paint L (rounded_mask_call (int (width src)) (trunc_quot (int (width src) * p) 100)) x y 0)"

text \<open>
  \<^verbatim>\<open>add_shadow_effect(image, shadow_color=(0, 0, 0, 60), offset=(2, 2), blur_radius=4)\<close>.
  The enlarged canvas \<^verbatim>\<open>shadow\<close> is allocated and a drawing handle is opened on it, but
  nothing is drawn on it and it is not returned; the result canvas has the size of
  the input.
\<close>

definition add_shadow_effect ::
  "lib \<Rightarrow> heap \<Rightarrow> ref \<Rightarrow> rgba \<Rightarrow> int \<times> int \<Rightarrow> int \<Rightarrow> exn + (ref \<times> heap)" where
  "add_shadow_effect L h img shadow_color offset blur_radius =
     (let sz = (int (width (h ! img)), int (height (h ! img)))
      in and_then (new_RGBA L h (fst sz + blur_radius * 2, snd sz + blur_radius * 2) (0, 0, 0, 0))
           (\<lambda>(shadow, h1).
         and_then (new_RGBA L h1 sz shadow_color) (\<lambda>(shadow_layer0, h2).
         case filter_GaussianBlur L h2 shadow_layer0 blur_radius of (shadow_layer, h3) \<Rightarrow>
         and_then (new_RGBA L h3 sz (0, 0, 0, 0)) (\<lambda>(result, h4).
         and_then (paste_with_mask L h4 result shadow_layer offset shadow_layer) (\<lambda>h5.
         and_then (paste_with_mask L h5 result img (0, 0) img) (\<lambda>h6.
         Inr (result, h6)))))))"

definition shadow_default ::
  "lib \<Rightarrow> heap \<Rightarrow> ref \<Rightarrow> exn + (ref \<times> heap)" where
  "shadow_default L h img = add_shadow_effect L h img (0, 0, 0, 60) (2, 2) 4"

text \<open>What a caller sees of a call that returns an image object.\<close>

definition result_image :: "exn + (ref \<times> heap) \<Rightarrow> exn + rgba image" where
  "result_image m = and_then m (\<lambda>(r, h). Inr (h ! r))"

definition size_of_result :: "exn + (ref \<times> heap) \<Rightarrow> exn + (nat \<times> nat)" where
  "size_of_result m = and_then m (\<lambda>(r, h). Inr (width (h ! r), height (h ! r)))"

section \<open>The procedural icon\<close>

text \<open>
  \<^verbatim>\<open>create_volcanic_icon(size)\<close> of \<^verbatim>\<open>simple-icon-gen.py\<close>. Every coordinate is
  \<^verbatim>\<open>int(k * s)\<close> with \<^verbatim>\<open>s = size / 512.0\<close>; two embers use \<^verbatim>\<open>2.5\<close> and \<^verbatim>\<open>1.5\<close>, written
  here in tenths. The drawing calls are listed in program order, group by group.
\<close>

definition scaled :: "int \<Rightarrow> int \<Rightarrow> int" where
  "scaled k sz = trunc_quot (k * sz) 512"

definition scaled_tenths :: "int \<Rightarrow> int \<Rightarrow> int" where
  "scaled_tenths k sz = trunc_quot (k * sz) 5120"

definition obsidian_dark :: rgba where "obsidian_dark = (13, 13, 13, 255)"
definition obsidian_medium :: rgba where "obsidian_medium = (42, 42, 42, 255)"
definition lava_primary :: rgba where "lava_primary = (255, 69, 0, 255)"
definition lava_secondary :: rgba where "lava_secondary = (255, 140, 0, 255)"
definition lava_gold :: rgba where "lava_gold = (255, 215, 0, 255)"

definition filled :: "shape \<Rightarrow> rgba \<Rightarrow> rgba call" where
  "filled s c = \<lparr>shape_of = s, fill = Some c, outline = None, stroke_width = 1\<rparr>"

definition centred :: "int \<Rightarrow> int \<Rightarrow> int \<Rightarrow> int \<Rightarrow> shape" where
  "centred cx cy rx ry = Ellipse (cx - rx) (cy - ry) (cx + rx) (cy + ry)"

definition background_call :: "int \<Rightarrow> rgba call" where
  "background_call sz =
     (let center = sz div 2; bg_radius = scaled 240 sz
      in filled (centred center center bg_radius bg_radius) obsidian_dark)"

definition ring_calls :: "int \<Rightarrow> rgba call list" where
  "ring_calls sz =
     (let center = sz div 2; ring_radius = scaled 220 sz; ring_width = max 1 (scaled 3 sz)
      in map (\<lambda>i. \<lparr>shape_of = Ellipse (center - ring_radius + i) (center - ring_radius + i)
                                    (center + ring_radius - i) (center + ring_radius - i),
                    fill = None, outline = Some lava_primary, stroke_width = 1\<rparr>)
           (map int [0..<nat ring_width]))"

definition anvil_call :: "int \<Rightarrow> rgba call" where
  "anvil_call sz =
     \<lparr>shape_of = Rectangle (scaled 160 sz) (scaled 332 sz) (scaled 352 sz) (scaled 380 sz),
      fill = Some obsidian_dark, outline = Some lava_primary,
      stroke_width = max 1 (scaled 2 sz)\<rparr>"

definition furnace_call :: "int \<Rightarrow> rgba call" where
  "furnace_call sz =
     \<lparr>shape_of = Polygon
        [(scaled 200 sz, scaled 320 sz), (scaled 312 sz, scaled 320 sz),
         (scaled 320 sz, scaled 180 sz), (scaled 290 sz, scaled 120 sz),
         (scaled 256 sz, scaled 100 sz), (scaled 222 sz, scaled 120 sz),
         (scaled 192 sz, scaled 180 sz)],
      fill = Some obsidian_medium, outline = Some lava_secondary,
      stroke_width = max 1 (scaled 3 sz)\<rparr>"

definition glow_color :: "int \<Rightarrow> rgba" where
  "glow_color i =
     (case (if i < 2 then lava_gold else if i < 4 then lava_secondary else lava_primary) of
        (r, g, b, a) \<Rightarrow> (r, g, b, word_of_int (255 - i * 40)))"

definition glow_calls :: "int \<Rightarrow> rgba call list" where
  "glow_calls sz =
     (let core_center_x = scaled 256 sz; core_center_y = scaled 200 sz;
          core_width = scaled 45 sz; core_height = scaled 60 sz
      in concat (map (\<lambda>i.
           let alpha = 255 - i * 40;
               radius_w = core_width - i * scaled 5 sz;
               radius_h = core_height - i * scaled 8 sz
           in if radius_w > 0 \<and> radius_h > 0 \<and> alpha > 0
              then [filled (centred core_center_x core_center_y radius_w radius_h) (glow_color i)]
              else [])
         [0, 1, 2, 3, 4]))"

text \<open>
  \<^verbatim>\<open>range(a, b, step)\<close> for a positive step; the script's step is \<^verbatim>\<open>max(1, int(10 * s))\<close>.
\<close>

function range_step :: "int \<Rightarrow> int \<Rightarrow> int \<Rightarrow> int list" where
  "range_step a b st = (if 0 < st \<and> a < b then a # range_step (a + st) b st else [])"
  by pat_completeness auto
termination
  by (relation "measure (\<lambda>(a, b, st). nat (b - a))") auto

declare range_step.simps [simp del]

definition crack_line :: "lib \<Rightarrow> int \<Rightarrow> int \<Rightarrow> rgba \<Rightarrow> int \<Rightarrow> rgba call list" where
  "crack_line L sz y_pos color w =
     (let points = map (\<lambda>x. (x, y_pos + wave L sz x))
                     (range_step (scaled 210 sz) (scaled 302 sz) (max 1 (scaled 10 sz)))
      in if 2 \<le> length points
         then map (\<lambda>(p, q). \<lparr>shape_of = Line (fst p) (snd p) (fst q) (snd q),
                              fill = Some color, outline = None, stroke_width = w\<rparr>)
                (zip points (tl points))
         else [])"

definition crack_calls :: "lib \<Rightarrow> int \<Rightarrow> rgba call list" where
  "crack_calls L sz =
     crack_line L sz (scaled 160 sz) lava_gold (max 1 (scaled 3 sz))
     @ crack_line L sz (scaled 200 sz) lava_secondary (max 1 (scaled 4 sz))
     @ crack_line L sz (scaled 240 sz) lava_primary (max 1 (scaled 3 sz))"

definition mouth_calls :: "int \<Rightarrow> rgba call list" where
  "mouth_calls sz =
     (let mouth_center_x = scaled 256 sz; mouth_center_y = scaled 140 sz;
          mouth_width = scaled 25 sz; mouth_height = scaled 15 sz;
          inner_width = scaled 20 sz; inner_height = scaled 10 sz
      in [\<lparr>shape_of = centred mouth_center_x mouth_center_y mouth_width mouth_height,
           fill = Some (0, 0, 0, 255), outline = Some lava_primary,
           stroke_width = max 1 (scaled 2 sz)\<rparr>,
          filled (centred mouth_center_x mouth_center_y inner_width inner_height)
            (255, 140, 0, 150)])"

definition ember_calls :: "int \<Rightarrow> rgba call list" where
  "ember_calls sz =
     concat (map (\<lambda>(x, y, radius, color).
                if radius > 0 then [filled (centred x y radius radius) color] else [])
       [(scaled 200 sz, scaled 120 sz, scaled 3 sz, lava_gold),
        (scaled 320 sz, scaled 100 sz, scaled 2 sz, lava_secondary),
        (scaled 280 sz, scaled 80 sz, scaled_tenths 25 sz, lava_gold),
        (scaled 180 sz, scaled 90 sz, scaled 2 sz, lava_primary),
        (scaled 340 sz, scaled 130 sz, scaled_tenths 15 sz, lava_secondary)])"

definition vent_calls :: "int \<Rightarrow> rgba call list" where
  "vent_calls sz =
     (let vent_y = scaled 300 sz; vent_height = max 1 (scaled 3 sz); vent_width = scaled 20 sz
      in map (\<lambda>x. filled (Rectangle x vent_y (x + vent_width) (vent_y + vent_height))
                     (255, 69, 0, 150))
           [scaled 200 sz, scaled 230 sz, scaled 260 sz, scaled 290 sz])"

definition focal_calls :: "int \<Rightarrow> rgba call list" where
  "focal_calls sz =
     (let center = sz div 2; core_center_y = scaled 200 sz;
          core_radius = max 1 (scaled 12 sz); bright_radius = max 1 (scaled 6 sz)
      in [filled (centred center core_center_y core_radius core_radius) lava_gold,
          filled (centred center core_center_y bright_radius bright_radius)
            (255, 255, 255, 200)])"

definition volcanic_calls :: "lib \<Rightarrow> int \<Rightarrow> rgba call list" where
  "volcanic_calls L sz =
     background_call sz # ring_calls sz @ [anvil_call sz, furnace_call sz] @ glow_calls sz
     @ crack_calls L sz @ mouth_calls sz @ ember_calls sz @ vent_calls sz @ focal_calls sz"

text \<open>Each call draws on the image object in place; the first rejected call raises.\<close>

fun draw_calls :: "lib \<Rightarrow> heap \<Rightarrow> ref \<Rightarrow> rgba call list \<Rightarrow> exn + heap" where
  "draw_calls L h r [] = Inr h"
| "draw_calls L h r (c # cs) =
     and_then (draw L (h ! r) c) (\<lambda>im. draw_calls L (h[r := im]) r cs)"

definition create_volcanic_icon :: "lib \<Rightarrow> heap \<Rightarrow> int \<Rightarrow> exn + (ref \<times> heap)" where
  "create_volcanic_icon L h sz =
     and_then (new_RGBA L h (sz, sz) (0, 0, 0, 0)) (\<lambda>(img, h1).
     and_then (draw_calls L h1 img (volcanic_calls L sz)) (\<lambda>h2.
     Inr (img, h2)))"

text \<open>
  A shape is degenerate when its box has no extent in one direction, which is what a
  scaled radius or width of zero or less produces.
\<close>

fun degenerate :: "shape \<Rightarrow> bool" where
  "degenerate (Ellipse x0 y0 x1 y1) = (x1 \<le> x0 \<or> y1 \<le> y0)"
| "degenerate (Rectangle x0 y0 x1 y1) = (x1 \<le> x0 \<or> y1 \<le> y0)"
| "degenerate (RoundedRectangle x0 y0 x1 y1 r) = (x1 \<le> x0 \<or> y1 \<le> y0)"
| "degenerate (Polygon pts) = False"
| "degenerate (Line x0 y0 x1 y1) = False"

text \<open>A call the library accepts, with a stroke of at least one pixel.\<close>

definition sound :: "'c call \<Rightarrow> bool" where
  "sound c = (shape_ok (shape_of c) \<and> 1 \<le> stroke_width c)"

definition skips_degenerate :: "lib \<Rightarrow> int \<Rightarrow> bool" where
  "skips_degenerate L sz = list_all (\<lambda>c. \<not> degenerate (shape_of c)) (volcanic_calls L sz)"


section \<open>Files, output and failures\<close>

text \<open>
  The scripts read and write files below the project root and print progress lines.
  The world is the file tree and the lines printed so far. What the environment
  decides is a parameter: whether the imaging and SVG packages can be imported, what
  the SVG rasteriser returns for a document and a size (lines 55 to 67 of
  \<^verbatim>\<open>generate-icons.py\<close>: rasterise, write the temporary file, reopen it and convert to
  RGBA; any failure there is its \<open>Inl\<close>), whether a write to a path succeeds, and
  whether \<^verbatim>\<open>iconutil\<close> is installed and which return code and error text it gives,
  whether the removal of a directory tree succeeds and, when it fails, which entries
  below the directory it leaves, and the text \<^verbatim>\<open>str(e)\<close> that the library or the
  operating system attached to an exception.
\<close>

type_synonym path = "string list"

datatype node =
  Dir | SvgFile string | PngFile "rgba image" | IcoFile "rgba image list"
  | IcnsFile "rgba image list"

record world =
  files :: "path \<rightharpoonup> node"
  stdout :: "string list"

record env =
  kernels :: lib
  deps_installed :: bool
  svg2png :: "string \<Rightarrow> int \<Rightarrow> exn + (nat \<Rightarrow> nat \<Rightarrow> rgba)"
  disk_ok :: "path \<Rightarrow> bool"
  iconutil :: "(rgba image list \<Rightarrow> int \<times> string) option"
  rmtree_outcome :: "path \<Rightarrow> (path \<Rightarrow> bool) option"
  exn_text :: "exn \<Rightarrow> string"

type_synonym 'a io = "world \<Rightarrow> (exn + 'a) \<times> world"

definition io_return :: "'a \<Rightarrow> 'a io" where
  "io_return x = (\<lambda>w. (Inr x, w))"

definition io_raise :: "exn \<Rightarrow> 'a io" where
  "io_raise e = (\<lambda>w. (Inl e, w))"

definition io_lift :: "exn + 'a \<Rightarrow> 'a io" where
  "io_lift r = (\<lambda>w. (r, w))"

definition io_bind :: "'a io \<Rightarrow> ('a \<Rightarrow> 'b io) \<Rightarrow> 'b io" where
  "io_bind m f = (\<lambda>w. case m w of (Inl e, w') \<Rightarrow> (Inl e, w') | (Inr x, w') \<Rightarrow> f x w')"

primrec for_each :: "'a list \<Rightarrow> ('a \<Rightarrow> unit io) \<Rightarrow> unit io" where
  "for_each [] f = io_return ()"
| "for_each (x # xs) f = io_bind (f x) (\<lambda>u. for_each xs f)"

text \<open>
  \<^verbatim>\<open>except Exception as e\<close> catches every exception class but those outside
  \<^verbatim>\<open>Exception\<close>; of the ones modelled, only \<^verbatim>\<open>SystemExit\<close> passes through. A run that
  ends normally exits with status 0, \<^verbatim>\<open>sys.exit(n)\<close> with \<open>n\<close>, and an uncaught
  exception with status 1.
\<close>

fun is_Exception :: "exn \<Rightarrow> bool" where
  "is_Exception (SystemExit n) = False"
| "is_Exception e = True"

definition except_Exception :: "unit io \<Rightarrow> (exn \<Rightarrow> unit io) \<Rightarrow> unit io" where
  "except_Exception body handler =
     (\<lambda>w. case body w of
             (Inl e, w') \<Rightarrow> if is_Exception e then handler e w' else (Inl e, w')
           | (Inr x, w') \<Rightarrow> (Inr x, w'))"

definition no_exit :: "'a io \<Rightarrow> bool" where
  "no_exit m = (\<forall>w e. fst (m w) = Inl e \<longrightarrow> is_Exception e)"

fun exit_status :: "exn + unit \<Rightarrow> int" where
  "exit_status (Inr u) = 0"
| "exit_status (Inl (SystemExit n)) = n"
| "exit_status (Inl e) = 1"

fun str_nat :: "nat \<Rightarrow> string" where
  "str_nat n = (if n < 10 then [char_of (48 + n)]
                else str_nat (n div 10) @ [char_of (48 + n mod 10)])"

declare str_nat.simps [simp del]

definition str_int :: "int \<Rightarrow> string" where
  "str_int i = (if i < 0 then CHR ''-'' # str_nat (nat (- i)) else str_nat (nat i))"

definition str_path :: "path \<Rightarrow> string" where
  "str_path p = concat (map (\<lambda>c. CHR ''/'' # c) p)"

definition path_name :: "path \<Rightarrow> string" where
  "path_name p = (if p = [] then [] else last p)"

definition path_parent :: "path \<Rightarrow> path" where
  "path_parent p = butlast p"

text \<open>
  \<^verbatim>\<open>Path.stem\<close>: the name without its last suffix; a dot that starts or ends the name
  begins no suffix.
\<close>

definition path_stem :: "path \<Rightarrow> string" where
  "path_stem p =
     (let name = path_name p; r = dropWhile (\<lambda>c. c \<noteq> CHR ''.'') (rev name)
      in if r = [] \<or> tl r = [] \<or> length r = length name then name else rev (tl r))"

definition py_print :: "string \<Rightarrow> unit io" where
  "py_print s = (\<lambda>w. (Inr (), w\<lparr>stdout := stdout w @ [s]\<rparr>))"

definition path_exists :: "path \<Rightarrow> bool io" where
  "path_exists p = (\<lambda>w. (Inr (files w p \<noteq> None), w))"

definition mkdir_exist_ok :: "path \<Rightarrow> unit io" where
  "mkdir_exist_ok p =
     (\<lambda>w. case files w p of
             Some Dir \<Rightarrow> (Inr (), w)
           | Some other \<Rightarrow> (Inl FileExistsError, w)
           | None \<Rightarrow>
               (case files w (path_parent p) of
                  Some Dir \<Rightarrow> (Inr (), w\<lparr>files := (files w)(p \<mapsto> Dir)\<rparr>)
                | Some other \<Rightarrow> (Inl NotADirectoryError, w)
                | None \<Rightarrow> (Inl FileNotFoundError, w)))"

definition save_file :: "env \<Rightarrow> path \<Rightarrow> node \<Rightarrow> unit io" where
  "save_file E p n =
     (\<lambda>w. if files w (path_parent p) \<noteq> Some Dir then (Inl FileNotFoundError, w)
           else if files w p = Some Dir \<or> \<not> disk_ok E p then (Inl OSError, w)
           else (Inr (), w\<lparr>files := (files w)(p \<mapsto> n)\<rparr>))"

definition Image_open :: "path \<Rightarrow> rgba image io" where
  "Image_open p =
     (\<lambda>w. case files w p of
             Some (PngFile im) \<Rightarrow> (Inr im, w)
           | Some other \<Rightarrow> (Inl UnidentifiedImageError, w)
           | None \<Rightarrow> (Inl FileNotFoundError, w))"

text \<open>
  \<^verbatim>\<open>shutil.rmtree(d)\<close> removes the directory and everything below it. When a removal
  fails it raises \<^verbatim>\<open>OSError\<close>: the directory itself is then still there, and of the
  entries below it those the environment names.
\<close>

definition rmtree :: "env \<Rightarrow> path \<Rightarrow> unit io" where
  "rmtree E d =
     (\<lambda>w. case rmtree_outcome E d of
             None \<Rightarrow> (Inr (), w\<lparr>files := (\<lambda>p. if prefix d p then None else files w p)\<rparr>)
           | Some kept \<Rightarrow>
               (Inl OSError,
                w\<lparr>files := (\<lambda>p. if strict_prefix d p \<and> \<not> kept p then None else files w p)\<rparr>))"

definition resize :: "lib \<Rightarrow> rgba image \<Rightarrow> nat \<Rightarrow> nat \<Rightarrow> rgba image" where
  "resize L im w h = \<lparr>width = w, height = h, pixels = raster w h (lanczos L im w h)\<rparr>"

section \<open>Icon bundles\<close>

text \<open>
  The library's ICO writer takes the image being saved and the requested sizes. It
  sorts the sizes and drops duplicates, ignores every size larger than the image
  being saved or larger than 256, and for each remaining size stores the image itself
  when it has that size and a thumbnail of it otherwise.
\<close>

definition ico_frames :: "lib \<Rightarrow> rgba image \<Rightarrow> (nat \<times> nat) list \<Rightarrow> rgba image list" where
  "ico_frames L im szs =
     map (\<lambda>sz. if (width im, height im) = sz then im else thumbnail L im sz)
       (filter (\<lambda>sz. \<not> (fst sz > width im \<or> snd sz > height im \<or> fst sz > 256 \<or> snd sz > 256))
          (sort (remdups szs)))"

definition save_ico :: "env \<Rightarrow> rgba image \<Rightarrow> path \<Rightarrow> (nat \<times> nat) list \<Rightarrow> unit io" where
  "save_ico E im p szs = save_file E p (IcoFile (ico_frames (kernels E) im szs))"

definition image_size :: "rgba image \<Rightarrow> nat \<times> nat" where
  "image_size im = (width im, height im)"

text \<open>\<^verbatim>\<open>generate_ico(png_512_path, ico_path)\<close>: the body of the \<^verbatim>\<open>try\<close>, then the handler.\<close>

definition ico_sizes :: "nat list" where
  "ico_sizes = [16, 24, 32, 48, 64, 128, 256]"

definition generate_ico_body :: "env \<Rightarrow> path \<Rightarrow> path \<Rightarrow> unit io" where
  "generate_ico_body E png_512_path ico_path =
     io_bind (Image_open png_512_path) (\<lambda>base_image.
       let images = map (\<lambda>sz. resize (kernels E) base_image sz sz) ico_sizes
       in io_bind (save_ico E (hd images) ico_path (map image_size images)) (\<lambda>u.
          py_print (''Generated '' @ path_name ico_path @ '' successfully'')))"

definition generate_ico :: "env \<Rightarrow> path \<Rightarrow> path \<Rightarrow> unit io" where
  "generate_ico E png_512_path ico_path =
     except_Exception (generate_ico_body E png_512_path ico_path)
       (\<lambda>e. py_print (''Warning: Could not generate .ico file: '' @ exn_text E e))"

text \<open>
  \<^verbatim>\<open>generate_icns(png_512_path, icns_path)\<close>. The \<^verbatim>\<open>try\<close> body is split at the call of
  \<^verbatim>\<open>iconutil\<close>: \<open>icns_stage\<close> creates the staging directory, writes the resized images
  into it and runs the tool; the rest looks at the return code. The tool is not
  installed when \<open>iconutil\<close> is \<open>None\<close>, and \<^verbatim>\<open>subprocess.run\<close> then raises
  \<^verbatim>\<open>FileNotFoundError\<close>; with return code 0 it has written the bundle.
\<close>

definition iconset_sizes :: "(nat \<times> string) list" where
  "iconset_sizes =
     [(16, ''icon_16x16.png''), (32, ''icon_16x16@2x.png''), (32, ''icon_32x32.png''),
      (64, ''icon_32x32@2x.png''), (128, ''icon_128x128.png''),
      (256, ''icon_128x128@2x.png''), (256, ''icon_256x256.png''),
      (512, ''icon_256x256@2x.png''), (512, ''icon_512x512.png''),
      (1024, ''icon_512x512@2x.png'')]"

definition iconset_dir_of :: "path \<Rightarrow> path" where
  "iconset_dir_of icns_path = path_parent icns_path @ [path_stem icns_path @ ''.iconset'']"

definition staged_frames :: "world \<Rightarrow> path \<Rightarrow> rgba image list" where
  "staged_frames w d =
     List.map_filter (\<lambda>(sz, filename). case files w (d @ [filename]) of
                                          Some (PngFile im) \<Rightarrow> Some im | _ \<Rightarrow> None)
       iconset_sizes"

definition run_iconutil :: "env \<Rightarrow> path \<Rightarrow> path \<Rightarrow> (int \<times> string) io" where
  "run_iconutil E iconset_dir icns_path =
     (\<lambda>w. case iconutil E of
             None \<Rightarrow> (Inl FileNotFoundError, w)
           | Some tool \<Rightarrow>
               (let res = tool (staged_frames w iconset_dir)
                in (Inr res,
                    if fst res = 0
                    then w\<lparr>files := (files w)(icns_path \<mapsto> IcnsFile (staged_frames w iconset_dir))\<rparr>
                    else w)))"

definition icns_stage :: "env \<Rightarrow> path \<Rightarrow> path \<Rightarrow> (int \<times> string) io" where
  "icns_stage E png_512_path icns_path =
     (let iconset_dir = iconset_dir_of icns_path
      in io_bind (mkdir_exist_ok iconset_dir) (\<lambda>u.
         io_bind (Image_open png_512_path) (\<lambda>base_image.
         io_bind (for_each iconset_sizes (\<lambda>(sz, filename).
                    let resized = (if sz \<le> 512 then resize (kernels E) base_image sz sz
                                   else resize (kernels E) base_image sz sz)
                    in save_file E (iconset_dir @ [filename]) (PngFile resized))) (\<lambda>u.
         run_iconutil E iconset_dir icns_path))))"

definition generate_icns_body :: "env \<Rightarrow> path \<Rightarrow> path \<Rightarrow> unit io" where
  "generate_icns_body E png_512_path icns_path =
     io_bind (icns_stage E png_512_path icns_path) (\<lambda>result.
       if fst result = 0
       then io_bind (py_print (''Generated '' @ path_name icns_path @ '' successfully'')) (\<lambda>u.
            rmtree E (iconset_dir_of icns_path))
       else py_print (''Warning: iconutil failed: '' @ snd result))"

definition generate_icns :: "env \<Rightarrow> path \<Rightarrow> path \<Rightarrow> unit io" where
  "generate_icns E png_512_path icns_path =
     except_Exception (generate_icns_body E png_512_path icns_path)
       (\<lambda>e. py_print (''Warning: Could not generate .icns file: '' @ exn_text E e))"

section \<open>The vector pipeline\<close>

text \<open>
  \<^verbatim>\<open>generate_png_from_svg(svg_path, size, output_path, rounded=False, shadow=False)\<close>.
  The image loaded from the rasteriser is the only object of a fresh store.
\<close>

definition load_svg :: "env \<Rightarrow> path \<Rightarrow> int \<Rightarrow> rgba image io" where
  "load_svg E svg_path sz =
     (\<lambda>w. case files w svg_path of
             Some (SvgFile doc) \<Rightarrow>
               (case svg2png E doc sz of
                  Inl e \<Rightarrow> (Inl e, w)
                | Inr f \<Rightarrow> (Inr \<lparr>width = nat sz, height = nat sz,
                                  pixels = raster (nat sz) (nat sz) f\<rparr>, w))
           | Some other \<Rightarrow> (Inl ParseError, w)
           | None \<Rightarrow> (Inl FileNotFoundError, w))"

definition post_process :: "lib \<Rightarrow> rgba image \<Rightarrow> bool \<Rightarrow> bool \<Rightarrow> exn + rgba image" where
  "post_process L im rounded shadow =
     and_then (if rounded then create_rounded_icon L [im] 0 20 else Inr (0, [im])) (\<lambda>(img, h1).
     and_then (if shadow then shadow_default L h1 img else Inr (img, h1)) (\<lambda>(img, h2).
     Inr (h2 ! img)))"

definition generate_png_from_svg ::
  "env \<Rightarrow> path \<Rightarrow> int \<Rightarrow> path \<Rightarrow> bool \<Rightarrow> bool \<Rightarrow> unit io" where
  "generate_png_from_svg E svg_path sz output_path rounded shadow =
     io_bind (py_print (''Generating '' @ path_name output_path @ '' ('' @ str_int sz @ ''x''
                          @ str_int sz @ '')'')) (\<lambda>u.
     io_bind (load_svg E svg_path sz) (\<lambda>im.
     io_bind (io_lift (post_process (kernels E) im rounded shadow)) (\<lambda>im.
     save_file E output_path (PngFile im))))"

text \<open>
  \<^verbatim>\<open>main()\<close> of \<^verbatim>\<open>generate-icons.py\<close>; \<open>root\<close> is the project root
  \<^verbatim>\<open>Path(__file__).parent.parent\<close>. The part up to the last PNG file is named
  \<open>generate_png_files\<close>. Decorative symbols and blank lines of the printed text are
  left out.
\<close>

definition sizes :: "(int \<times> string \<times> bool \<times> bool) list" where
  "sizes =
     [(32, ''32x32.png'', False, False),
      (128, ''128x128.png'', True, True),
      (256, ''128x128@2x.png'', True, True),
      (512, ''icon.png'', True, True)]"

definition store_sizes :: "(int \<times> string) list" where
  "store_sizes =
     [(30, ''Square30x30Logo.png''), (44, ''Square44x44Logo.png''),
      (71, ''Square71x71Logo.png''), (89, ''Square89x89Logo.png''),
      (107, ''Square107x107Logo.png''), (142, ''Square142x142Logo.png''),
      (150, ''Square150x150Logo.png''), (284, ''Square284x284Logo.png''),
      (310, ''Square310x310Logo.png''), (50, ''StoreLogo.png'')]"

definition generate_png_files :: "env \<Rightarrow> path \<Rightarrow> unit io" where
  "generate_png_files E root =
     (if \<not> deps_installed E then
        io_bind (py_print ''Error: Required dependencies not found.'') (\<lambda>u.
        io_bind (py_print ''Please install: pip install Pillow cairosvg'') (\<lambda>u.
        io_raise (SystemExit 1)))
      else
        let project_root = root;
            svg_path = project_root @ [''design'', ''logo.svg''];
            icons_dir = project_root @ [''src-tauri'', ''icons'']
        in io_bind (path_exists svg_path) (\<lambda>found.
           if \<not> found then
             io_bind (py_print (''Error: SVG file not found at '' @ str_path svg_path)) (\<lambda>u.
             io_raise (SystemExit 1))
           else
             io_bind (mkdir_exist_ok icons_dir) (\<lambda>u.
             io_bind (py_print ''Code Furnace Icon Generator'') (\<lambda>u.
             io_bind (py_print (replicate 40 (CHR ''=''))) (\<lambda>u.
             io_bind (for_each sizes (\<lambda>(sz, filename, rounded, shadow).
                        generate_png_from_svg E svg_path sz (icons_dir @ [filename])
                          rounded shadow)) (\<lambda>u.
             for_each store_sizes (\<lambda>(sz, filename).
               generate_png_from_svg E svg_path sz (icons_dir @ [filename]) True False)))))))"

definition generate_icons_main :: "env \<Rightarrow> path \<Rightarrow> unit io" where
  "generate_icons_main E root =
     (let icons_dir = root @ [''src-tauri'', ''icons'']
      in io_bind (generate_png_files E root) (\<lambda>u.
         io_bind (py_print ''Generating platform-specific formats...'') (\<lambda>u.
         io_bind (generate_icns E (icons_dir @ [''icon.png'']) (icons_dir @ [''icon.icns''])) (\<lambda>u.
         io_bind (generate_ico E (icons_dir @ [''icon.png'']) (icons_dir @ [''icon.ico''])) (\<lambda>u.
         io_bind (py_print ''Icon generation complete!'') (\<lambda>u.
         io_bind (py_print (''Generated icons in: '' @ str_path icons_dir)) (\<lambda>u.
         io_bind (py_print ''Next steps:'') (\<lambda>u.
         io_bind (py_print ''1. Review the generated icons'') (\<lambda>u.
         io_bind (py_print ''2. Run: npm run tauri:build'') (\<lambda>u.
         py_print ''3. Your app will use the new volcanic logo!''))))))))))"

section \<open>The procedural pipeline\<close>

text \<open>
  \<^verbatim>\<open>main()\<close> of \<^verbatim>\<open>simple-icon-gen.py\<close>. Each icon is drawn in a fresh store; the
  list comprehension that renders the ICO sizes stops at the first failure.
\<close>

definition icon_configs :: "(int \<times> string \<times> bool \<times> string) list" where
  "icon_configs =
     [(32, ''32x32.png'', False, ''Small app icon''),
      (128, ''128x128.png'', True, ''Medium app icon''),
      (256, ''128x128@2x.png'', True, ''Retina medium icon''),
      (512, ''icon.png'', True, ''Large app icon''),
      (30, ''Square30x30Logo.png'', True, ''Windows Store 30x30''),
      (44, ''Square44x44Logo.png'', True, ''Windows Store 44x44''),
      (71, ''Square71x71Logo.png'', True, ''Windows Store 71x71''),
      (89, ''Square89x89Logo.png'', True, ''Windows Store 89x89''),
      (107, ''Square107x107Logo.png'', True, ''Windows Store 107x107''),
      (142, ''Square142x142Logo.png'', True, ''Windows Store 142x142''),
      (150, ''Square150x150Logo.png'', True, ''Windows Store 150x150''),
      (284, ''Square284x284Logo.png'', True, ''Windows Store 284x284''),
      (310, ''Square310x310Logo.png'', True, ''Windows Store 310x310''),
      (50, ''StoreLogo.png'', True, ''Windows Store Logo'')]"

definition simple_icon :: "lib \<Rightarrow> int \<Rightarrow> bool \<Rightarrow> exn + rgba image" where
  "simple_icon L sz rounded =
     and_then (create_volcanic_icon L [] sz) (\<lambda>(icon, h1).
     and_then (if rounded then create_rounded_icon L h1 icon 20 else Inr (icon, h1)) (\<lambda>(icon, h2).
     Inr (h2 ! icon)))"

primrec collect :: "(exn + 'a) list \<Rightarrow> exn + 'a list" where
  "collect [] = Inr []"
| "collect (m # ms) = and_then m (\<lambda>x. and_then (collect ms) (\<lambda>xs. Inr (x # xs)))"

definition simple_ico_body :: "env \<Rightarrow> path \<Rightarrow> unit io" where
  "simple_ico_body E icons_dir =
     io_bind (io_lift (collect (map (\<lambda>sz. result_image (create_volcanic_icon (kernels E) [] (int sz)))
                                  ico_sizes))) (\<lambda>ico_images.
       let ico_path = icons_dir @ [''icon.ico'']
       in io_bind (save_ico E (hd ico_images) ico_path (map image_size ico_images)) (\<lambda>u.
          py_print (''Generated '' @ path_name ico_path)))"

definition simple_icon_gen_main :: "env \<Rightarrow> path \<Rightarrow> unit io" where
  "simple_icon_gen_main E root =
     io_bind (py_print ''Code Furnace Simple Icon Generator'') (\<lambda>u.
     io_bind (py_print (replicate 45 (CHR ''=''))) (\<lambda>u.
     let icons_dir = root @ [''src-tauri'', ''icons'']
     in io_bind (mkdir_exist_ok icons_dir) (\<lambda>u.
        io_bind (for_each icon_configs (\<lambda>(sz, filename, rounded, description).
                   io_bind (py_print (''Generating '' @ filename @ '' ('' @ str_int sz @ ''x''
                                        @ str_int sz @ '') - '' @ description)) (\<lambda>u.
                   io_bind (io_lift (simple_icon (kernels E) sz rounded)) (\<lambda>icon.
                   save_file E (icons_dir @ [filename]) (PngFile icon))))) (\<lambda>u.
        io_bind (py_print ''Generating icon.ico for Windows...'') (\<lambda>u.
        io_bind (except_Exception (simple_ico_body E icons_dir)
                   (\<lambda>e. py_print (''Warning: Could not generate .ico file: '' @ exn_text E e))) (\<lambda>u.
        io_bind (py_print ''Icon generation complete!'') (\<lambda>u.
        io_bind (py_print (''Generated '' @ str_nat (length icon_configs + 1)
                             @ '' icon files in: '' @ str_path icons_dir)) (\<lambda>u.
        io_bind (py_print ''Next steps:'') (\<lambda>u.
        io_bind (py_print ''1. Review the generated volcanic icons'') (\<lambda>u.
        io_bind (py_print ''2. Run: npm run tauri:build'') (\<lambda>u.
        py_print ''3. Your Code Furnace app now has a molten logo!'')))))))))))"

text \<open>What an observer finds at a path: the size of a PNG file, the frame sizes of an ICO file.\<close>

definition png_size_at :: "world \<Rightarrow> path \<Rightarrow> (nat \<times> nat) option" where
  "png_size_at w p = (case files w p of Some (PngFile im) \<Rightarrow> Some (image_size im) | _ \<Rightarrow> None)"

definition ico_sizes_at :: "world \<Rightarrow> path \<Rightarrow> (nat \<times> nat) list option" where
  "ico_sizes_at w p = (case files w p of Some (IcoFile fs) \<Rightarrow> Some (map image_size fs) | _ \<Rightarrow> None)"

text \<open>The entries of the vector pipeline: the core sizes, and the store logos, rounded and without shadow.\<close>

definition vector_entries :: "(int \<times> string \<times> bool \<times> bool) list" where
  "vector_entries = sizes @ map (\<lambda>(sz, filename). (sz, filename, True, False)) store_sizes"

section \<open>Reference inputs\<close>

text \<open>
  A reference set of kernels, used to run the model on concrete inputs: shapes cover
  their bounding box, outlines and lines paint nothing, the blur and the resampling
  read the nearest source pixel, the blend takes the source where the mask is not
  zero, crack lines are straight, and no more memory is there than every environment
  has.
\<close>

fun box_interior :: "shape \<Rightarrow> int \<Rightarrow> int \<Rightarrow> bool" where
  "box_interior (Ellipse x0 y0 x1 y1) x y = (x0 \<le> x \<and> x \<le> x1 \<and> y0 \<le> y \<and> y \<le> y1)"
| "box_interior (Rectangle x0 y0 x1 y1) x y = (x0 \<le> x \<and> x \<le> x1 \<and> y0 \<le> y \<and> y \<le> y1)"
| "box_interior (RoundedRectangle x0 y0 x1 y1 r) x y =
     (x0 \<le> x \<and> x \<le> x1 \<and> y0 \<le> y \<and> y \<le> y1)"
| "box_interior (Polygon pts) x y = False"
| "box_interior (Line x0 y0 x1 y1) x y = False"

definition box_lib :: lib where
  "box_lib =
     \<lparr>interior = box_interior,
      stroke = (\<lambda>s w x y. False),
      gaussian = (\<lambda>r px x y. px ! y ! x),
      blend = (\<lambda>m d s. if m = 0 then d else s),
      lanczos = (\<lambda>im w h x y. getpixel im (x * width im div w) (y * height im div h)),
      thumbnail = (\<lambda>im sz. im),
      wave = (\<lambda>sz x. 0),
      memory_limit = 0\<rparr>"

definition dot :: "rgba image" where
  "dot = \<lparr>width = 1, height = 1, pixels = [[(9, 8, 7, 6)]]\<rparr>"

definition wide :: "rgba image" where
  "wide = \<lparr>width = 2, height = 1, pixels = [[(9, 8, 7, 6), (5, 4, 3, 2)]]\<rparr>"

fun box_text :: "exn \<Rightarrow> string" where
  "box_text FileNotFoundError = ''[Errno 2] No such file or directory''"
| "box_text OSError = ''[Errno 28] No space left on device''"
| "box_text e = ''error''"

definition box_env :: env where
  "box_env =
     \<lparr>kernels = box_lib, deps_installed = True,
      svg2png = (\<lambda>doc sz. Inr (\<lambda>x y. (0, 0, 0, 0))),
      disk_ok = (\<lambda>p. True),
      iconutil = None,
      rmtree_outcome = (\<lambda>d. None),
      exn_text = box_text\<rparr>"

text \<open>
  A project tree with the logo in place and the output directory present, and one
  where a finished \<^verbatim>\<open>icon.png\<close> of one pixel waits for packaging.
\<close>

definition svg_world :: world where
  "svg_world =
     \<lparr>files = [[] \<mapsto> Dir, [''design''] \<mapsto> Dir, [''design'', ''logo.svg''] \<mapsto> SvgFile ''<svg/>'',
               [''src-tauri''] \<mapsto> Dir, [''src-tauri'', ''icons''] \<mapsto> Dir],
      stdout = []\<rparr>"

definition png_world :: world where
  "png_world =
     \<lparr>files = [[] \<mapsto> Dir, [''src-tauri''] \<mapsto> Dir, [''src-tauri'', ''icons''] \<mapsto> Dir,
               [''src-tauri'', ''icons'', ''icon.png''] \<mapsto> PngFile dot],
      stdout = []\<rparr>"

text \<open>A world where the base image \<^verbatim>\<open>icon.png\<close> is a transparent 512 by 512 raster.\<close>

definition blank512 :: "rgba image" where
  "blank512 = \<lparr>width = 512, height = 512, pixels = raster 512 512 (\<lambda>x y. (0, 0, 0, 0))\<rparr>"

definition base512_world :: world where
  "base512_world =
     \<lparr>files = [[] \<mapsto> Dir, [''src-tauri''] \<mapsto> Dir, [''src-tauri'', ''icons''] \<mapsto> Dir,
               [''src-tauri'', ''icons'', ''icon.png''] \<mapsto> PngFile blank512],
      stdout = []\<rparr>"

text \<open>
  Environments for the packaging step: one where \<^verbatim>\<open>iconutil\<close> is installed and
  succeeds, one where it returns an error, one where no write succeeds, and one
  where the tool succeeds but the staging directory cannot be removed. Last, a
  five by five image.
\<close>

definition tool_env :: env where
  "tool_env = box_env\<lparr>iconutil := Some (\<lambda>frames. (0, []))\<rparr>"

definition failing_tool_env :: env where
  "failing_tool_env = box_env\<lparr>iconutil := Some (\<lambda>frames. (1, ''Invalid Iconset''))\<rparr>"

definition full_disk_env :: env where
  "full_disk_env = box_env\<lparr>disk_ok := (\<lambda>p. False)\<rparr>"

definition stuck_env :: env where
  "stuck_env = tool_env\<lparr>rmtree_outcome := (\<lambda>d. Some (\<lambda>p. True))\<rparr>"

definition five :: "rgba image" where
  "five = \<lparr>width = 5, height = 5, pixels = raster 5 5 (\<lambda>x y. (9, 8, 7, 6))\<rparr>"

text \<open>
  The state of the project tree in which every PNG of the vector pipeline can be
  written: the logo is there, the output directory exists and none of its entries is
  a directory.
\<close>

definition ready :: "world \<Rightarrow> bool" where
  "ready w = (files w [''design'', ''logo.svg''] = Some (SvgFile ''<svg/>'')
             \<and> files w [''src-tauri'', ''icons''] = Some Dir
             \<and> (\<forall>name. files w [''src-tauri'', ''icons'', name] \<noteq> Some Dir))"

section \<open>Basic facts\<close>

lemma raster_nth: "x < w \<Longrightarrow> y < h \<Longrightarrow> raster w h f ! y ! x = f x y"
  by (simp add: raster_def)

lemma raster_cong:
  assumes "\<And>x y. x < w \<Longrightarrow> y < h \<Longrightarrow> f x y = g x y"
  shows "raster w h f = raster w h g"
  using assms by (simp add: raster_def)

section \<open>Post-processing: sizes, idempotence and the frame\<close>

lemma and_then_Inr [simp]: "and_then (Inr x) f = f x"
  by (simp add: and_then_def)

lemma and_then_Inl [simp]: "and_then (Inl e) f = Inl e"
  by (simp add: and_then_def)

lemma Image_new_ok:
  "0 \<le> a \<Longrightarrow> 0 \<le> b \<Longrightarrow> allocatable L (nat a) (nat b) \<Longrightarrow>
   Image_new L (a, b) c = Inr \<lparr>width = nat a, height = nat b, pixels = raster (nat a) (nat b) (\<lambda>x y. c)\<rparr>"
  by (auto simp add: Image_new_def allocatable_def)

lemma Image_new_Inr:
  "Image_new L (a, b) c = Inr im \<Longrightarrow> 0 \<le> a \<and> 0 \<le> b \<and> allocatable L (nat a) (nat b)"
  by (auto simp add: Image_new_def allocatable_def split: if_splits)

lemma small_allocatable:
  assumes "w \<le> 1024" and "h \<le> 1024"
  shows "allocatable L w h"
proof -
  have "w * h \<le> 1024 * 1024" using assms by (rule mult_le_mono)
  then have "w * h \<le> max 1048576 (memory_limit L)" by simp
  moreover have "w < 2 ^ 31" "h < 2 ^ 31" using assms by simp_all
  ultimately show ?thesis by (simp add: allocatable_def)
qed

lemma allocatable_mono:
  assumes "allocatable L w' h'" and "w \<le> w'" and "h \<le> h'"
  shows "allocatable L w h"
proof -
  have "w * h \<le> w' * h'" using assms(2, 3) by (rule mult_le_mono)
  then show ?thesis using assms by (auto simp add: allocatable_def)
qed

lemma getpixel_raster:
  "x < w \<Longrightarrow> y < h \<Longrightarrow> getpixel \<lparr>width = w', height = h', pixels = raster w h f\<rparr> x y = f x y"
  by (simp add: getpixel_def raster_nth)

lemma trunc_quot_nonneg: "0 \<le> a \<Longrightarrow> 0 \<le> trunc_quot a 100"
  by (simp add: trunc_quot_def pos_imp_zdiv_nonneg_iff)

lemma create_rounded_icon_eq:
  assumes "img < length h"
      and "allocatable L (width (h ! img)) (width (h ! img))"
      and "0 \<le> trunc_quot (int (width (h ! img)) * p) 100"
  shows "create_rounded_icon L h img p =
     Inr (length h, h @ [\<lparr>width = width (h ! img), height = width (h ! img),
        pixels = raster (width (h ! img)) (width (h ! img)) (rounded_pixel L (h ! img) p)\<rparr>])"
proof -
  have neq: "img \<noteq> length h" using assms by simp
  show ?thesis
    using assms neq
    apply (simp add: create_rounded_icon_def Let_def Image_new_ok draw_def rounded_mask_call_def
        new_RGBA_def alloc_def paste_def putalpha_def putalpha_image_def paste_image_def nth_append)
    apply (rule raster_cong)
    apply (simp add: getpixel_raster rounded_pixel_def in_box_def rounded_mask_call_def nth_append)
    done
qed

lemma create_rounded_icon_Inr:
  assumes "create_rounded_icon L h img p = Inr (r, h')"
  shows "allocatable L (width (h ! img)) (width (h ! img))
       \<and> 0 \<le> trunc_quot (int (width (h ! img)) * p) 100"
proof -
  let ?w = "int (width (h ! img))"
  obtain mask0 where m0: "Image_new L (?w, ?w) (0 :: byte) = Inr mask0"
    using assms by (cases "Image_new L (?w, ?w) (0 :: byte)") (simp_all add: create_rounded_icon_def Let_def)
  have al: "allocatable L (width (h ! img)) (width (h ! img))"
    using Image_new_Inr [OF m0] by simp
  have "shape_ok (shape_of (rounded_mask_call ?w (trunc_quot (?w * p) 100)))"
    using assms m0
    by (cases "shape_ok (shape_of (rounded_mask_call ?w (trunc_quot (?w * p) 100)))")
       (simp_all add: create_rounded_icon_def Let_def draw_def)
  then show ?thesis using al by (simp add: rounded_mask_call_def)
qed

lemma create_rounded_icon_returns:
  assumes "img < length h" and "0 \<le> p" and "allocatable L (width (h ! img)) (width (h ! img))"
  shows "create_rounded_icon L h img p =
     Inr (length h, h @ [\<lparr>width = width (h ! img), height = width (h ! img),
        pixels = raster (width (h ! img)) (width (h ! img)) (rounded_pixel L (h ! img) p)\<rparr>])"
  using assms by (intro create_rounded_icon_eq trunc_quot_nonneg) simp_all

lemma paste_masked_self:
  "paste_masked L dst src off src = Inr (dst\<lparr>pixels := raster (width dst) (height dst)
        (\<lambda>x y. if in_box off src x y
                then blend_rgba L
                       (alpha_of (getpixel src (nat (int x - fst off)) (nat (int y - snd off))))
                       (getpixel dst x y)
                       (getpixel src (nat (int x - fst off)) (nat (int y - snd off)))
                else getpixel dst x y)\<rparr>)"
  by (simp add: paste_masked_def)

lemma add_shadow_effect_shape:
  assumes "0 \<le> int (width (h ! img)) + blur_radius * 2"
      and "0 \<le> int (height (h ! img)) + blur_radius * 2"
      and "allocatable L (nat (int (width (h ! img)) + blur_radius * 2))
             (nat (int (height (h ! img)) + blur_radius * 2))"
      and "allocatable L (width (h ! img)) (height (h ! img))"
  shows "\<exists>S B0 B R. add_shadow_effect L h img c off blur_radius = Inr (length h + 3, h @ [S, B0, B, R])
           \<and> width R = width (h ! img) \<and> height R = height (h ! img)"
  using assms
  by (simp add: add_shadow_effect_def Let_def new_RGBA_def alloc_def Image_new_ok
      filter_GaussianBlur_def paste_with_mask_def paste_masked_self nth_append list_update_append)

lemma add_shadow_effect_Inr:
  assumes "add_shadow_effect L h img c off blur_radius = Inr (r, h')"
  shows "0 \<le> int (width (h ! img)) + blur_radius * 2
       \<and> 0 \<le> int (height (h ! img)) + blur_radius * 2
       \<and> allocatable L (nat (int (width (h ! img)) + blur_radius * 2))
             (nat (int (height (h ! img)) + blur_radius * 2))
       \<and> allocatable L (width (h ! img)) (height (h ! img))"
proof -
  let ?a = "int (width (h ! img)) + blur_radius * 2" and ?b = "int (height (h ! img)) + blur_radius * 2"
  let ?w = "int (width (h ! img))" and ?hh = "int (height (h ! img))"
  obtain S where S: "Image_new L (?a, ?b) ((0, 0, 0, 0) :: rgba) = Inr S"
    using assms
    by (cases "Image_new L (?a, ?b) ((0, 0, 0, 0) :: rgba)")
       (simp_all add: add_shadow_effect_def Let_def new_RGBA_def)
  obtain B0 where B0: "Image_new L (?w, ?hh) c = Inr B0"
    using assms S
    by (cases "Image_new L (?w, ?hh) c")
       (simp_all add: add_shadow_effect_def Let_def new_RGBA_def alloc_def)
  show ?thesis using Image_new_Inr [OF S] Image_new_Inr [OF B0] by simp
qed

lemma add_shadow_effect_Inr_shape:
  assumes "add_shadow_effect L h img c off blur_radius = Inr (r, h')"
  shows "\<exists>S B0 B R. r = length h + 3 \<and> h' = h @ [S, B0, B, R]
           \<and> width R = width (h ! img) \<and> height R = height (h ! img)"
  using add_shadow_effect_Inr [OF assms] assms
    add_shadow_effect_shape [of h img blur_radius L c off]
  by auto

lemma add_shadow_effect_negative:
  assumes "int (width (h ! img)) + blur_radius * 2 < 0 \<or> int (height (h ! img)) + blur_radius * 2 < 0"
  shows "add_shadow_effect L h img c off blur_radius = Inl ValueError"
  using assms by (auto simp add: add_shadow_effect_def Let_def new_RGBA_def Image_new_def)

lemma add_shadow_effect_overflow:
  assumes "0 \<le> int (width (h ! img)) + blur_radius * 2" "0 \<le> int (height (h ! img)) + blur_radius * 2"
      and "2 ^ 31 \<le> int (width (h ! img)) + blur_radius * 2
           \<or> 2 ^ 31 \<le> int (height (h ! img)) + blur_radius * 2"
  shows "add_shadow_effect L h img c off blur_radius = Inl OverflowError"
  using assms by (auto simp add: add_shadow_effect_def Let_def new_RGBA_def Image_new_def)

text \<open>
  Claim C1, as amended. Whenever \<^verbatim>\<open>add_shadow_effect\<close> returns, the canvas it returns
  has exactly the size of its input, for every input image, colour, offset and blur
  radius: the canvas enlarged by twice the blur radius is allocated but is not the
  one returned. The call returns whenever the blur radius is not negative, the box
  pasted at the offset lies within 32-bit integers and the enlarged canvas can be
  allocated. It raises \<^verbatim>\<open>ValueError\<close> when an enlarged dimension is negative and
  \<^verbatim>\<open>OverflowError\<close> when one is \<open>2 ^ 31\<close> or more.
\<close>

theorem add_shadow_effect_keeps_size:
  "(add_shadow_effect L h img c off blur_radius = Inr (r, h') \<longrightarrow>
      width (h' ! r) = width (h ! img) \<and> height (h' ! r) = height (h ! img))
   \<and> (0 \<le> blur_radius
      \<and> - (2 ^ 31) \<le> fst off \<and> fst off + int (width (h ! img)) < 2 ^ 31
      \<and> - (2 ^ 31) \<le> snd off \<and> snd off + int (height (h ! img)) < 2 ^ 31
      \<and> allocatable L (nat (int (width (h ! img)) + blur_radius * 2))
           (nat (int (height (h ! img)) + blur_radius * 2)) \<longrightarrow>
      (\<exists>r h'. add_shadow_effect L h img c off blur_radius = Inr (r, h')))
   \<and> (int (width (h ! img)) + blur_radius * 2 < 0
      \<or> int (height (h ! img)) + blur_radius * 2 < 0 \<longrightarrow>
      add_shadow_effect L h img c off blur_radius = Inl ValueError)
   \<and> (0 \<le> int (width (h ! img)) + blur_radius * 2
      \<and> 0 \<le> int (height (h ! img)) + blur_radius * 2
      \<and> (2 ^ 31 \<le> int (width (h ! img)) + blur_radius * 2
         \<or> 2 ^ 31 \<le> int (height (h ! img)) + blur_radius * 2) \<longrightarrow>
      add_shadow_effect L h img c off blur_radius = Inl OverflowError)"
proof (intro conjI impI)
  assume "add_shadow_effect L h img c off blur_radius = Inr (r, h')"
  then obtain S B0 B R where "r = length h + 3" "h' = h @ [S, B0, B, R]"
    "width R = width (h ! img)" "height R = height (h ! img)"
    using add_shadow_effect_Inr_shape by blast
  then show "width (h' ! r) = width (h ! img)" "height (h' ! r) = height (h ! img)"
    by (simp_all add: nth_append)
next
  assume a: "0 \<le> blur_radius
      \<and> - (2 ^ 31) \<le> fst off \<and> fst off + int (width (h ! img)) < 2 ^ 31
      \<and> - (2 ^ 31) \<le> snd off \<and> snd off + int (height (h ! img)) < 2 ^ 31
      \<and> allocatable L (nat (int (width (h ! img)) + blur_radius * 2))
           (nat (int (height (h ! img)) + blur_radius * 2))"
  have big: "allocatable L (nat (int (width (h ! img)) + blur_radius * 2))
           (nat (int (height (h ! img)) + blur_radius * 2))"
    and nonneg: "0 \<le> blur_radius"
    using a by simp_all
  have le1: "width (h ! img) \<le> nat (int (width (h ! img)) + blur_radius * 2)"
    and le2: "height (h ! img) \<le> nat (int (height (h ! img)) + blur_radius * 2)"
    using nonneg by simp_all
  have small: "allocatable L (width (h ! img)) (height (h ! img))"
    using big le1 le2 by (rule allocatable_mono)
  have p1: "0 \<le> int (width (h ! img)) + blur_radius * 2"
    and p2: "0 \<le> int (height (h ! img)) + blur_radius * 2"
    using nonneg by simp_all
  obtain S B0 B R where
    "add_shadow_effect L h img c off blur_radius = Inr (length h + 3, h @ [S, B0, B, R])"
    using add_shadow_effect_shape [OF p1 p2 big small, of c off] by blast
  then show "\<exists>r h'. add_shadow_effect L h img c off blur_radius = Inr (r, h')"
    by blast
next
  assume "int (width (h ! img)) + blur_radius * 2 < 0
      \<or> int (height (h ! img)) + blur_radius * 2 < 0"
  then show "add_shadow_effect L h img c off blur_radius = Inl ValueError"
    by (rule add_shadow_effect_negative)
next
  assume "0 \<le> int (width (h ! img)) + blur_radius * 2
      \<and> 0 \<le> int (height (h ! img)) + blur_radius * 2
      \<and> (2 ^ 31 \<le> int (width (h ! img)) + blur_radius * 2
         \<or> 2 ^ 31 \<le> int (height (h ! img)) + blur_radius * 2)"
  then show "add_shadow_effect L h img c off blur_radius = Inl OverflowError"
    by (intro add_shadow_effect_overflow) simp_all
qed

lemma dot_allocatable: "allocatable box_lib 9 9 \<and> allocatable box_lib 1 1"
  by (simp add: small_allocatable)

theorem add_shadow_effect_keeps_size_witness:
  "(\<exists>r h'. add_shadow_effect box_lib [dot] 0 (0, 0, 0, 60) (2, 2) 4 = Inr (r, h')
      \<and> width (h' ! r) = 1 \<and> height (h' ! r) = 1)
   \<and> add_shadow_effect box_lib [dot] 0 (0, 0, 0, 60) (2, 2) (- 1) = Inl ValueError
   \<and> add_shadow_effect box_lib [dot] 0 (0, 0, 0, 60) (2, 2) 2147483648 = Inl OverflowError"
proof -
  have pre: "(0 :: int) \<le> 4
      \<and> - (2 ^ 31) \<le> fst (2 :: int, 2 :: int) \<and> fst (2 :: int, 2 :: int) + int (width ([dot] ! 0)) < 2 ^ 31
      \<and> - (2 ^ 31) \<le> snd (2 :: int, 2 :: int) \<and> snd (2 :: int, 2 :: int) + int (height ([dot] ! 0)) < 2 ^ 31
      \<and> allocatable box_lib (nat (int (width ([dot] ! 0)) + 4 * 2)) (nat (int (height ([dot] ! 0)) + 4 * 2))"
    using dot_allocatable by (simp add: dot_def)
  obtain r h' where run: "add_shadow_effect box_lib [dot] 0 (0, 0, 0, 60) (2, 2) 4 = Inr (r, h')"
    using add_shadow_effect_keeps_size [of box_lib "[dot]" 0 "(0, 0, 0, 60)" "(2, 2)" 4] pre by blast
  have sz: "width (h' ! r) = 1 \<and> height (h' ! r) = 1"
    using add_shadow_effect_keeps_size [of box_lib "[dot]" 0 "(0, 0, 0, 60)" "(2, 2)" 4 r h'] run
    by (simp add: dot_def)
  have neg: "add_shadow_effect box_lib [dot] 0 (0, 0, 0, 60) (2, 2) (- 1) = Inl ValueError"
    using add_shadow_effect_keeps_size [of box_lib "[dot]" 0 "(0, 0, 0, 60)" "(2, 2)" "- 1"]
    by (simp add: dot_def)
  have big: "add_shadow_effect box_lib [dot] 0 (0, 0, 0, 60) (2, 2) 2147483648 = Inl OverflowError"
    using add_shadow_effect_keeps_size [of box_lib "[dot]" 0 "(0, 0, 0, 60)" "(2, 2)" 2147483648]
    by (simp add: dot_def)
  show ?thesis using run sz neg big by auto
qed

text \<open>
  Claim C1 as stated fails: a one-pixel image under the default blur radius 4 comes
  back one pixel wide and high, not nine.
\<close>

theorem add_shadow_effect_enlarged_counterexample:
  "size_of_result (add_shadow_effect box_lib [dot] 0 (0, 0, 0, 60) (2, 2) 4)
     \<noteq> Inr (width dot + 2 * 4, height dot + 2 * 4)"
proof -
  obtain S B0 B R where
    "add_shadow_effect box_lib [dot] 0 (0, 0, 0, 60) (2, 2) 4 = Inr (length [dot] + 3, [dot] @ [S, B0, B, R])"
    "width R = width ([dot] ! 0)"
    using add_shadow_effect_shape [of "[dot]" 0 4 box_lib "(0, 0, 0, 60)" "(2, 2)"] dot_allocatable
    by (auto simp add: dot_def)
  then show ?thesis by (simp add: size_of_result_def dot_def)
qed

lemma create_rounded_icon_Inr_eq:
  assumes "img < length h" and "create_rounded_icon L h img p = Inr (r, h')"
  shows "r = length h \<and> h' = h @ [\<lparr>width = width (h ! img), height = width (h ! img),
        pixels = raster (width (h ! img)) (width (h ! img)) (rounded_pixel L (h ! img) p)\<rparr>]"
  using create_rounded_icon_eq [OF assms(1), of L p] create_rounded_icon_Inr [OF assms(2)] assms(2)
  by simp

text \<open>
  Claim C5. Corner rounding is idempotent, for every image and every radius
  percentage: applying it to its own result with the same percentage has the same
  outcome as applying it once. Whenever the first application returns an image, the
  second returns an image equal to it, pixels and alpha alike, and the alpha of the
  result is the mask itself, whatever alpha the input had. The first application
  returns for every percentage from 0 to 100 when a canvas of the input's
  width squared can be allocated; a negative radius makes the library raise
  \<^verbatim>\<open>ValueError\<close>, in the second application as in the first. The input need not be
  square; it only has to be a live object of the store.
\<close>

theorem create_rounded_icon_idempotent:
  assumes "img < length h"
  shows "result_image (and_then (create_rounded_icon L h img p)
                         (\<lambda>(r1, h1). create_rounded_icon L h1 r1 p))
           = result_image (create_rounded_icon L h img p)
       \<and> (create_rounded_icon L h img p = Inr (r1, h1) \<longrightarrow>
            (\<exists>r2 h2. create_rounded_icon L h1 r1 p = Inr (r2, h2) \<and> h2 ! r2 = h1 ! r1)
            \<and> (\<forall>x y. x < width (h ! img) \<and> y < width (h ! img) \<longrightarrow>
                  alpha_of (getpixel (h1 ! r1) x y) =
                  paint L (rounded_mask_call (int (width (h ! img)))
                             (trunc_quot (int (width (h ! img)) * p) 100)) x y 0))
       \<and> (0 \<le> p \<and> p \<le> 100 \<and> allocatable L (width (h ! img)) (width (h ! img)) \<longrightarrow>
            (\<exists>r1 h1. create_rounded_icon L h img p = Inr (r1, h1)))"
proof -
  let ?w = "width (h ! img)"
  let ?R = "\<lparr>width = ?w, height = ?w, pixels = raster ?w ?w (rounded_pixel L (h ! img) p)\<rparr>"
  have step: "create_rounded_icon L (h @ [?R]) (length h) p = Inr (Suc (length h), (h @ [?R]) @ [?R])
      \<and> (\<forall>x y. x < ?w \<and> y < ?w \<longrightarrow>
            alpha_of (getpixel ?R x y) =
            paint L (rounded_mask_call (int ?w) (trunc_quot (int ?w * p) 100)) x y 0)"
    if once: "create_rounded_icon L h img p = Inr (a, b)" for a b
  proof -
    have ok: "allocatable L ?w ?w" "0 \<le> trunc_quot (int ?w * p) 100"
      using create_rounded_icon_Inr [OF once] by simp_all
    have again: "create_rounded_icon L (h @ [?R]) (length h) p =
        Inr (Suc (length h), (h @ [?R]) @ [\<lparr>width = ?w, height = ?w,
          pixels = raster ?w ?w (rounded_pixel L ?R p)\<rparr>])"
      using create_rounded_icon_eq [of "length h" "h @ [?R]" L p] ok by simp
    have same: "raster ?w ?w (rounded_pixel L ?R p) = raster ?w ?w (rounded_pixel L (h ! img) p)"
    proof (rule raster_cong)
      fix x y assume "x < ?w" "y < ?w"
      then show "rounded_pixel L ?R p x y = rounded_pixel L (h ! img) p x y"
        by (simp add: rounded_pixel_def getpixel_raster set_alpha_def split: prod.splits)
    qed
    have alpha: "\<forall>x y. x < ?w \<and> y < ?w \<longrightarrow>
        alpha_of (getpixel ?R x y) =
        paint L (rounded_mask_call (int ?w) (trunc_quot (int ?w * p) 100)) x y 0"
      by (simp add: getpixel_raster rounded_pixel_def set_alpha_def alpha_of_def split: prod.splits)
    show ?thesis using again same alpha by simp
  qed
  have outcome: "result_image (and_then (create_rounded_icon L h img p)
                         (\<lambda>(r1, h1). create_rounded_icon L h1 r1 p))
           = result_image (create_rounded_icon L h img p)"
  proof (cases "create_rounded_icon L h img p")
    case (Inl e)
    then show ?thesis by simp
  next
    case (Inr res)
    obtain a b where res: "res = (a, b)" by (cases res)
    have ab: "a = length h \<and> b = h @ [?R]"
      using create_rounded_icon_Inr_eq [OF assms, of L p a b] Inr res by simp
    show ?thesis
      using Inr res ab step [of a b] by (simp add: result_image_def nth_append)
  qed
  have second: "(\<exists>r2 h2. create_rounded_icon L h1 r1 p = Inr (r2, h2) \<and> h2 ! r2 = h1 ! r1)
            \<and> (\<forall>x y. x < ?w \<and> y < ?w \<longrightarrow>
                  alpha_of (getpixel (h1 ! r1) x y) =
                  paint L (rounded_mask_call (int ?w) (trunc_quot (int ?w * p) 100)) x y 0)"
    if once: "create_rounded_icon L h img p = Inr (r1, h1)"
  proof -
    have ab: "r1 = length h \<and> h1 = h @ [?R]"
      using create_rounded_icon_Inr_eq [OF assms once] by simp
    show ?thesis using step [OF once] ab by (simp add: nth_append)
  qed
  have first: "\<exists>r1 h1. create_rounded_icon L h img p = Inr (r1, h1)"
    if "0 \<le> p \<and> p \<le> 100 \<and> allocatable L ?w ?w"
    using create_rounded_icon_returns [OF assms, of p L] that by simp
  show ?thesis using outcome second first by blast
qed

lemma five_allocatable: "allocatable box_lib 5 5"
  by (simp add: small_allocatable)

lemma negative_radius_raises: "create_rounded_icon box_lib [five] 0 (- 20) = Inl ValueError"
  using five_allocatable
  by (simp add: create_rounded_icon_def Let_def five_def Image_new_ok draw_def rounded_mask_call_def
      trunc_quot_def)

theorem create_rounded_icon_idempotent_witness:
  "0 < length [dot]
   \<and> (\<exists>r1 h1 r2 h2.
           create_rounded_icon box_lib [dot] 0 20 = Inr (r1, h1)
         \<and> create_rounded_icon box_lib h1 r1 20 = Inr (r2, h2)
         \<and> h2 ! r2 = h1 ! r1
         \<and> alpha_of (getpixel (h1 ! r1) 0 0) = 255)
   \<and> result_image (and_then (create_rounded_icon box_lib [five] 0 (- 20))
                      (\<lambda>(r1, h1). create_rounded_icon box_lib h1 r1 (- 20)))
       = result_image (create_rounded_icon box_lib [five] 0 (- 20))
   \<and> create_rounded_icon box_lib [five] 0 (- 20) = Inl ValueError"
proof -
  have live: "0 < length [dot]" by simp
  have live5: "0 < length [five]" by simp
  have pre: "0 \<le> (20 :: int) \<and> (20 :: int) \<le> 100
      \<and> allocatable box_lib (width ([dot] ! 0)) (width ([dot] ! 0))"
    using dot_allocatable by (simp add: dot_def)
  obtain r1 h1 where once: "create_rounded_icon box_lib [dot] 0 20 = Inr (r1, h1)"
    using create_rounded_icon_idempotent [OF live, of box_lib 20] pre by blast
  obtain r2 h2 where again: "create_rounded_icon box_lib h1 r1 20 = Inr (r2, h2)" "h2 ! r2 = h1 ! r1"
    and alpha: "\<forall>x y. x < width ([dot] ! 0) \<and> y < width ([dot] ! 0) \<longrightarrow>
               alpha_of (getpixel (h1 ! r1) x y) =
               paint box_lib (rounded_mask_call (int (width ([dot] ! 0)))
                          (trunc_quot (int (width ([dot] ! 0)) * 20) 100)) x y 0"
    using create_rounded_icon_idempotent [OF live, of box_lib 20 r1 h1] once by blast
  have a: "alpha_of (getpixel (h1 ! r1) 0 0) = 255"
    using alpha
    by (simp add: dot_def paint_def rounded_mask_call_def box_lib_def trunc_quot_def)
  have neg: "result_image (and_then (create_rounded_icon box_lib [five] 0 (- 20))
                      (\<lambda>(r1, h1). create_rounded_icon box_lib h1 r1 (- 20)))
       = result_image (create_rounded_icon box_lib [five] 0 (- 20))"
    using create_rounded_icon_idempotent [OF live5, of box_lib "- 20"] by blast
  show ?thesis using live once again a neg negative_radius_raises by auto
qed

text \<open>
  Claim C9. Whenever corner rounding returns, its result is a square whose side is
  the width of the input, for every input, square or not: the height of the input
  plays no part in the size. Rows of the input below that side are cut off; where
  the input has no row, the result is black under the mask's alpha. It returns for
  every radius percentage from 0 to 100 when a canvas of the input's width
  squared can be allocated.
\<close>

theorem create_rounded_icon_square_of_width:
  assumes "img < length h"
  shows "(create_rounded_icon L h img p = Inr (r, h') \<longrightarrow>
            width (h' ! r) = width (h ! img) \<and> height (h' ! r) = width (h ! img)
            \<and> (\<forall>x y. x < width (h ! img) \<and> y < width (h ! img) \<longrightarrow>
                 getpixel (h' ! r) x y =
                 set_alpha (if y < height (h ! img) then getpixel (h ! img) x y else (0, 0, 0, 0))
                   (paint L (rounded_mask_call (int (width (h ! img)))
                      (trunc_quot (int (width (h ! img)) * p) 100)) x y 0)))
       \<and> (0 \<le> p \<and> p \<le> 100 \<and> allocatable L (width (h ! img)) (width (h ! img)) \<longrightarrow>
            (\<exists>r h'. create_rounded_icon L h img p = Inr (r, h')))"
proof (intro conjI impI)
  assume run: "create_rounded_icon L h img p = Inr (r, h')"
  have eq: "r = length h \<and> h' = h @ [\<lparr>width = width (h ! img), height = width (h ! img),
        pixels = raster (width (h ! img)) (width (h ! img)) (rounded_pixel L (h ! img) p)\<rparr>]"
    using create_rounded_icon_Inr_eq [OF assms run] .
  then show "width (h' ! r) = width (h ! img)" "height (h' ! r) = width (h ! img)"
    by simp_all
  show "\<forall>x y. x < width (h ! img) \<and> y < width (h ! img) \<longrightarrow>
                 getpixel (h' ! r) x y =
                 set_alpha (if y < height (h ! img) then getpixel (h ! img) x y else (0, 0, 0, 0))
                   (paint L (rounded_mask_call (int (width (h ! img)))
                      (trunc_quot (int (width (h ! img)) * p) 100)) x y 0)"
    using eq by (simp add: getpixel_raster rounded_pixel_def)
next
  assume "0 \<le> p \<and> p \<le> 100 \<and> allocatable L (width (h ! img)) (width (h ! img))"
  then show "\<exists>r h'. create_rounded_icon L h img p = Inr (r, h')"
    using create_rounded_icon_returns [OF assms, of p L] by simp
qed

theorem create_rounded_icon_square_of_width_witness:
  "0 < length [wide] \<and>
   (\<exists>r h'. create_rounded_icon box_lib [wide] 0 20 = Inr (r, h')
      \<and> width (h' ! r) = 2 \<and> height (h' ! r) = 2
      \<and> getpixel (h' ! r) 1 0 = (5, 4, 3, 255)
      \<and> getpixel (h' ! r) 1 1 = (0, 0, 0, 255))"
proof -
  have live: "0 < length [wide]" by simp
  have pre: "0 \<le> (20 :: int) \<and> (20 :: int) \<le> 100
      \<and> allocatable box_lib (width ([wide] ! 0)) (width ([wide] ! 0))"
    by (simp add: wide_def small_allocatable)
  obtain r h' where run: "create_rounded_icon box_lib [wide] 0 20 = Inr (r, h')"
    using create_rounded_icon_square_of_width [OF live, of box_lib 20] pre by blast
  have facts: "width (h' ! r) = width ([wide] ! 0) \<and> height (h' ! r) = width ([wide] ! 0)
    \<and> (\<forall>x y. x < width ([wide] ! 0) \<and> y < width ([wide] ! 0) \<longrightarrow>
                 getpixel (h' ! r) x y =
                 set_alpha (if y < height ([wide] ! 0) then getpixel ([wide] ! 0) x y else (0, 0, 0, 0))
                   (paint box_lib (rounded_mask_call (int (width ([wide] ! 0)))
                      (trunc_quot (int (width ([wide] ! 0)) * 20) 100)) x y 0))"
    using create_rounded_icon_square_of_width [OF live, of box_lib 20 r h'] run by blast
  have a: "getpixel (h' ! r) 1 0 = (5, 4, 3, 255)"
    using facts [THEN conjunct2, THEN conjunct2, rule_format, of 1 0]
    by (simp add: wide_def getpixel_def set_alpha_def paint_def rounded_mask_call_def box_lib_def
        trunc_quot_def)
  have b: "getpixel (h' ! r) 1 1 = (0, 0, 0, 255)"
    using facts [THEN conjunct2, THEN conjunct2, rule_format, of 1 1]
    by (simp add: wide_def getpixel_def set_alpha_def paint_def rounded_mask_call_def box_lib_def
        trunc_quot_def)
  show ?thesis using run facts a b by (auto simp add: wide_def)
qed

text \<open>
  Claim C10. Corner rounding and the shadow effect leave their argument as it was:
  when either returns, every object that was in the store before the call, the
  argument among them, is unchanged, and the returned reference is a new one.
\<close>

theorem post_processing_keeps_argument:
  assumes "img < length h"
  shows "(create_rounded_icon L h img p = Inr (r, h') \<longrightarrow>
            h' ! img = h ! img \<and> take (length h) h' = h \<and> length h \<le> r \<and> r < length h')
       \<and> (add_shadow_effect L h img c off blur_radius = Inr (r2, h2) \<longrightarrow>
            h2 ! img = h ! img \<and> take (length h) h2 = h \<and> length h \<le> r2 \<and> r2 < length h2)"
proof (intro conjI impI)
  assume "create_rounded_icon L h img p = Inr (r, h')"
  then have "r = length h" and "\<exists>R. h' = h @ [R]"
    using create_rounded_icon_Inr_eq [OF assms, of L p r h'] by auto
  then show "h' ! img = h ! img" "take (length h) h' = h" "length h \<le> r" "r < length h'"
    using assms by (auto simp add: nth_append)
next
  assume "add_shadow_effect L h img c off blur_radius = Inr (r2, h2)"
  then obtain S B0 B R where "r2 = length h + 3" "h2 = h @ [S, B0, B, R]"
    using add_shadow_effect_Inr_shape by blast
  then show "h2 ! img = h ! img" "take (length h) h2 = h" "length h \<le> r2" "r2 < length h2"
    using assms by (auto simp add: nth_append)
qed

theorem post_processing_keeps_argument_witness:
  "0 < length [dot] \<and>
   (\<exists>r h' r2 h2. create_rounded_icon box_lib [dot] 0 20 = Inr (r, h')
      \<and> h' ! 0 = dot \<and> take 1 h' = [dot] \<and> 1 \<le> r \<and> r < length h'
      \<and> add_shadow_effect box_lib [dot] 0 (0, 0, 0, 60) (2, 2) 4 = Inr (r2, h2)
      \<and> h2 ! 0 = dot \<and> take 1 h2 = [dot] \<and> 1 \<le> r2 \<and> r2 < length h2)"
proof -
  have live: "0 < length [dot]" by simp
  obtain r h' where a: "create_rounded_icon box_lib [dot] 0 20 = Inr (r, h')"
    using create_rounded_icon_returns [OF live, of 20 box_lib] dot_allocatable
    by (simp add: dot_def)
  obtain r2 h2 where b: "add_shadow_effect box_lib [dot] 0 (0, 0, 0, 60) (2, 2) 4 = Inr (r2, h2)"
    using add_shadow_effect_shape [of "[dot]" 0 4 box_lib "(0, 0, 0, 60)" "(2, 2)"] dot_allocatable
    by (auto simp add: dot_def)
  show ?thesis
    using live a b
      post_processing_keeps_argument [OF live, of box_lib 20 r h' "(0, 0, 0, 60)" "(2, 2)" 4 r2 h2]
    by auto
qed

section \<open>The procedural renderer\<close>

lemma scaled_nonneg: "0 \<le> sz \<Longrightarrow> 0 \<le> k \<Longrightarrow> 0 \<le> scaled k sz"
  by (simp add: scaled_def trunc_quot_def pos_imp_zdiv_nonneg_iff)

lemma scaled_tenths_nonneg: "0 \<le> sz \<Longrightarrow> 0 \<le> k \<Longrightarrow> 0 \<le> scaled_tenths k sz"
  by (simp add: scaled_tenths_def trunc_quot_def pos_imp_zdiv_nonneg_iff)

lemma scaled_mono: "0 \<le> sz \<Longrightarrow> 0 \<le> j \<Longrightarrow> j \<le> k \<Longrightarrow> scaled j sz \<le> scaled k sz"
  by (simp add: scaled_def trunc_quot_def zdiv_mono1 mult_right_mono)

lemma centred_ok: "0 \<le> rx \<Longrightarrow> 0 \<le> ry \<Longrightarrow> shape_ok (centred cx cy rx ry)"
  by (simp add: centred_def)

lemma centred_proper: "0 < rx \<Longrightarrow> 0 < ry \<Longrightarrow> \<not> degenerate (centred cx cy rx ry)"
  by (simp add: centred_def)

lemma sound_filled: "sound (filled s c) = shape_ok s"
  by (simp add: sound_def filled_def)

lemma background_sound: "0 \<le> sz \<Longrightarrow> sound (background_call sz)"
  by (simp add: background_call_def Let_def sound_filled centred_ok scaled_nonneg)

lemma ring_sound:
  assumes "0 \<le> sz" shows "list_all sound (ring_calls sz)"
proof -
  have a: "scaled 3 sz \<le> scaled 220 sz" using assms by (simp add: scaled_mono)
  have b: "0 \<le> scaled 220 sz" using assms by (simp add: scaled_nonneg)
  have "\<And>i. i < nat (max 1 (scaled 3 sz)) \<Longrightarrow> int i \<le> scaled 220 sz"
    using a b by auto
  then show ?thesis
    by (auto simp add: ring_calls_def Let_def list_all_iff sound_def)
qed

lemma anvil_sound: "0 \<le> sz \<Longrightarrow> sound (anvil_call sz)"
  by (simp add: anvil_call_def sound_def scaled_mono)

lemma furnace_sound: "sound (furnace_call sz)"
  by (simp add: furnace_call_def sound_def)

lemma glow_sound: "list_all sound (glow_calls sz)"
  by (simp add: glow_calls_def Let_def sound_filled centred_ok)

lemma glow_proper: "list_all (\<lambda>c. \<not> degenerate (shape_of c)) (glow_calls sz)"
  by (simp add: glow_calls_def Let_def filled_def centred_proper)

lemma crack_line_sound: "1 \<le> w \<Longrightarrow> list_all sound (crack_line L sz y c w)"
  by (auto simp add: crack_line_def Let_def list_all_iff sound_def)

lemma crack_sound: "list_all sound (crack_calls L sz)"
  by (simp add: crack_calls_def crack_line_sound)

lemma mouth_sound: "0 \<le> sz \<Longrightarrow> list_all sound (mouth_calls sz)"
  by (simp add: mouth_calls_def Let_def sound_def filled_def centred_ok scaled_nonneg)

lemma ember_sound: "list_all sound (ember_calls sz)"
  by (simp add: ember_calls_def sound_filled centred_ok)

lemma ember_proper: "list_all (\<lambda>c. \<not> degenerate (shape_of c)) (ember_calls sz)"
  by (simp add: ember_calls_def filled_def centred_proper)

lemma vent_sound: "0 \<le> sz \<Longrightarrow> list_all sound (vent_calls sz)"
  using scaled_nonneg [of sz 20]
  by (simp add: vent_calls_def Let_def sound_filled)

lemma focal_sound: "list_all sound (focal_calls sz)"
  by (simp add: focal_calls_def Let_def sound_filled centred_ok)

lemma volcanic_sound: "0 \<le> sz \<Longrightarrow> list_all sound (volcanic_calls L sz)"
  by (simp add: volcanic_calls_def background_sound ring_sound anvil_sound furnace_sound
      glow_sound crack_sound mouth_sound ember_sound vent_sound focal_sound)

lemma draw_calls_ok:
  "list_all sound cs \<Longrightarrow> \<exists>h'. draw_calls L h r cs = Inr h'"
  by (induction cs arbitrary: h) (auto simp add: draw_def sound_def)

lemma create_volcanic_icon_ok:
  assumes "0 \<le> sz" and "allocatable L (nat sz) (nat sz)"
  shows "\<exists>r h'. create_volcanic_icon L h sz = Inr (r, h')"
proof -
  obtain h' where "draw_calls L (h @ [\<lparr>width = nat sz, height = nat sz,
       pixels = raster (nat sz) (nat sz) (\<lambda>x y. (0, 0, 0, 0))\<rparr>]) (length h) (volcanic_calls L sz) = Inr h'"
    using draw_calls_ok [OF volcanic_sound [OF assms(1)]] by blast
  then show ?thesis
    using assms by (simp add: create_volcanic_icon_def new_RGBA_def Image_new_ok alloc_def)
qed

lemma draw_calls_local:
  "r < length h \<Longrightarrow> r' < length h' \<Longrightarrow> h ! r = h' ! r' \<Longrightarrow>
   and_then (draw_calls L h r cs) (\<lambda>g. Inr (g ! r)) = and_then (draw_calls L h' r' cs) (\<lambda>g. Inr (g ! r'))"
proof (induction cs arbitrary: h h')
  case Nil
  then show ?case by simp
next
  case (Cons c cs)
  show ?case
  proof (cases "draw L (h ! r) c")
    case (Inl e)
    then show ?thesis using Cons.prems by simp
  next
    case (Inr im)
    have "and_then (draw_calls L (h[r := im]) r cs) (\<lambda>g. Inr (g ! r)) =
          and_then (draw_calls L (h'[r' := im]) r' cs) (\<lambda>g. Inr (g ! r'))"
      using Cons.prems by (intro Cons.IH) simp_all
    then show ?thesis using Inr Cons.prems by simp
  qed
qed

text \<open>
  Claim C4. The procedural renderer is deterministic: the image it returns depends on
  the resolution alone. Whatever objects the store holds when it is called, two
  calls with the same resolution return images that are equal pixel for pixel, and
  fail alike when the resolution is negative. The sine of the crack lines is a fixed
  function of resolution and abscissa.
\<close>

theorem create_volcanic_icon_deterministic:
  "result_image (create_volcanic_icon L h1 sz) = result_image (create_volcanic_icon L h2 sz)"
proof (cases "Image_new L (sz, sz) ((0, 0, 0, 0) :: rgba)")
  case (Inl e)
  then show ?thesis
    by (simp add: create_volcanic_icon_def new_RGBA_def result_image_def)
next
  case (Inr blank)
  have loc: "and_then (draw_calls L (h1 @ [blank]) (length h1) (volcanic_calls L sz)) (\<lambda>g. Inr (g ! length h1))
     = and_then (draw_calls L (h2 @ [blank]) (length h2) (volcanic_calls L sz)) (\<lambda>g. Inr (g ! length h2))"
    by (rule draw_calls_local) simp_all
  have "\<And>h. result_image (create_volcanic_icon L h sz) =
     and_then (draw_calls L (h @ [blank]) (length h) (volcanic_calls L sz)) (\<lambda>g. Inr (g ! length h))"
    using Inr
    by (simp add: create_volcanic_icon_def new_RGBA_def alloc_def result_image_def
         and_then_def split: sum.splits)
  then show ?thesis using loc by simp
qed

text \<open>
  Claim C3, as amended. For every resolution of at least 1 whose canvas the library
  can allocate, the renderer returns normally; its only failures are those of the
  allocation, \<^verbatim>\<open>OverflowError\<close> from \<open>2 ^ 31\<close> on and \<^verbatim>\<open>MemoryError\<close>. The glow ellipses
  and the ember dots whose scaled radius is zero or less are skipped, so none of
  those drawn is degenerate; every call that is issued has a box the library accepts
  and a stroke width of at least 1, the widths and the two focal radii being clamped
  from below.
\<close>

theorem create_volcanic_icon_returns:
  assumes "1 \<le> sz" and "allocatable L (nat sz) (nat sz)"
  shows "(\<exists>r h'. create_volcanic_icon L h sz = Inr (r, h'))
       \<and> list_all (\<lambda>c. \<not> degenerate (shape_of c)) (glow_calls sz @ ember_calls sz)
       \<and> list_all (\<lambda>c. shape_ok (shape_of c) \<and> 1 \<le> stroke_width c) (volcanic_calls L sz)"
proof -
  have "0 \<le> sz" using assms by simp
  then show ?thesis
    using create_volcanic_icon_ok [of sz L h] assms(2) volcanic_sound [of sz L] glow_proper ember_proper
    by (simp add: sound_def [abs_def])
qed

lemma create_volcanic_icon_overflow:
  "2 ^ 31 \<le> sz \<Longrightarrow> create_volcanic_icon L h sz = Inl OverflowError"
  by (simp add: create_volcanic_icon_def new_RGBA_def Image_new_def)

theorem create_volcanic_icon_returns_witness:
  "(1 :: int) \<le> 16 \<and> allocatable box_lib (nat 16) (nat 16)
   \<and> (\<exists>r h'. create_volcanic_icon box_lib [] 16 = Inr (r, h'))
   \<and> list_all (\<lambda>c. \<not> degenerate (shape_of c)) (glow_calls 16 @ ember_calls 16)
   \<and> list_all (\<lambda>c. shape_ok (shape_of c) \<and> 1 \<le> stroke_width c) (volcanic_calls box_lib 16)"
proof -
  have al: "allocatable box_lib (nat 16) (nat 16)" by (simp add: small_allocatable)
  show ?thesis
    using al create_volcanic_icon_returns [of 16 box_lib "[]"] by simp
qed

text \<open>
  Claim C3 as stated fails in its second half: not every primitive of zero radius or
  width is skipped. At resolution 1 the background circle has radius 0 and is drawn.
\<close>

theorem create_volcanic_icon_skips_counterexample: "\<not> skips_degenerate box_lib 1"
  by (simp add: skips_degenerate_def volcanic_calls_def background_call_def Let_def filled_def
      centred_def scaled_def trunc_quot_def)

section \<open>Sizes of the produced rasters\<close>

lemma draw_size:
  "draw L im c = Inr im' \<Longrightarrow> width im' = width im \<and> height im' = height im"
  by (auto simp add: draw_def split: if_splits)

lemma draw_calls_size:
  "draw_calls L h r cs = Inr h' \<Longrightarrow> r < length h \<Longrightarrow>
   length h' = length h \<and> width (h' ! r) = width (h ! r) \<and> height (h' ! r) = height (h ! r)"
proof (induction cs arbitrary: h)
  case Nil
  then show ?case by simp
next
  case (Cons c cs)
  from Cons.prems obtain im where im: "draw L (h ! r) c = Inr im"
    and rest: "draw_calls L (h[r := im]) r cs = Inr h'"
    by (cases "draw L (h ! r) c") auto
  have "length h' = length (h[r := im]) \<and> width (h' ! r) = width (h[r := im] ! r)
      \<and> height (h' ! r) = height (h[r := im] ! r)"
    using rest Cons.prems(2) by (intro Cons.IH) simp_all
  then show ?case using draw_size [OF im] Cons.prems(2) by simp
qed

lemma create_volcanic_icon_size:
  assumes "0 \<le> sz" and "allocatable L (nat sz) (nat sz)"
  shows "\<exists>h'. create_volcanic_icon L h sz = Inr (length h, h') \<and> length h' = Suc (length h)
           \<and> width (h' ! length h) = nat sz \<and> height (h' ! length h) = nat sz"
proof -
  let ?blank = "\<lparr>width = nat sz, height = nat sz,
       pixels = raster (nat sz) (nat sz) (\<lambda>x y. (0, 0, 0, 0) :: rgba)\<rparr>"
  obtain h' where h': "draw_calls L (h @ [?blank]) (length h) (volcanic_calls L sz) = Inr h'"
    using draw_calls_ok [OF volcanic_sound [OF assms(1)]] by blast
  have "length h' = length (h @ [?blank]) \<and> width (h' ! length h) = width ((h @ [?blank]) ! length h)
      \<and> height (h' ! length h) = height ((h @ [?blank]) ! length h)"
    using h' by (intro draw_calls_size) simp_all
  then show ?thesis
    using assms h' by (simp add: create_volcanic_icon_def new_RGBA_def Image_new_ok alloc_def)
qed

lemma simple_icon_size:
  assumes "0 \<le> sz" and "sz \<le> 1024"
  shows "\<exists>icon. simple_icon L sz rounded = Inr icon \<and> width icon = nat sz \<and> height icon = nat sz"
proof -
  have al: "allocatable L (nat sz) (nat sz)" using assms by (intro small_allocatable) simp_all
  obtain h1 where v: "create_volcanic_icon L [] sz = Inr (0, h1)" and len: "length h1 = 1"
    and w: "width (h1 ! 0) = nat sz" and hh: "height (h1 ! 0) = nat sz"
    using create_volcanic_icon_size [OF assms(1) al, of "[]"] by auto
  show ?thesis
  proof (cases rounded)
    case False
    then show ?thesis using v w hh by (simp add: simple_icon_def)
  next
    case True
    have live: "0 < length h1" using len by simp
    show ?thesis
      using True v w al create_rounded_icon_returns [OF live, of 20 L]
      by (simp add: simple_icon_def)
  qed
qed

lemma post_process_size:
  assumes "height im = width im" and "post_process L im rounded shadow = Inr out"
  shows "width out = width im \<and> height out = width im"
proof -
  define a where "a = (if rounded then create_rounded_icon L [im] 0 20 else Inr (0, [im]))"
  obtain r h1 where a: "a = Inr (r, h1)"
    using assms(2) by (cases a) (auto simp add: post_process_def a_def [symmetric])
  have s1: "width (h1 ! r) = width im \<and> height (h1 ! r) = width im"
  proof (cases rounded)
    case False
    then show ?thesis using a assms(1) by (auto simp add: a_def)
  next
    case True
    then have "create_rounded_icon L [im] 0 20 = Inr (r, h1)" using a by (simp add: a_def)
    then show ?thesis using create_rounded_icon_Inr_eq [of 0 "[im]" L 20 r h1] by simp
  qed
  define b where "b = (if shadow then shadow_default L h1 r else Inr (r, h1))"
  obtain r2 h2 where b: "b = Inr (r2, h2)"
    using assms(2) a by (cases b) (auto simp add: post_process_def a_def [symmetric] b_def [symmetric])
  have s2: "width (h2 ! r2) = width im \<and> height (h2 ! r2) = width im"
  proof (cases shadow)
    case False
    then show ?thesis using b s1 by (auto simp add: b_def)
  next
    case True
    then have "add_shadow_effect L h1 r (0, 0, 0, 60) (2, 2) 4 = Inr (r2, h2)"
      using b by (simp add: b_def shadow_default_def)
    then obtain S B0 B R where "r2 = length h1 + 3" "h2 = h1 @ [S, B0, B, R]"
        "width R = width (h1 ! r)" "height R = height (h1 ! r)"
      using add_shadow_effect_Inr_shape by blast
    then show ?thesis using s1 by (simp add: nth_append)
  qed
  show ?thesis
    using assms(2) a b s2 by (simp add: post_process_def a_def [symmetric] b_def [symmetric])
qed

lemma post_process_ok:
  assumes "height im = width im" and "width im \<le> 1016"
  shows "\<exists>out. post_process L im rounded shadow = Inr out"
proof -
  have al: "allocatable L (width im) (width im)" using assms by (intro small_allocatable) simp_all
  define a where "a = (if rounded then create_rounded_icon L [im] 0 20 else Inr (0, [im]))"
  have "\<exists>r h1. a = Inr (r, h1) \<and> width (h1 ! r) = width im \<and> height (h1 ! r) = width im"
    using assms(1) al create_rounded_icon_returns [of 0 "[im]" 20 L]
    by (cases rounded) (simp_all add: a_def)
  then obtain r h1 where a: "a = Inr (r, h1)" and w1: "width (h1 ! r) = width im"
    and hh1: "height (h1 ! r) = width im" by blast
  have al8: "allocatable L (nat (int (width im) + 4 * 2)) (nat (int (width im) + 4 * 2))"
    using assms(2) by (intro small_allocatable) simp_all
  have "\<exists>r2 h2. add_shadow_effect L h1 r (0, 0, 0, 60) (2, 2) 4 = Inr (r2, h2)"
    using add_shadow_effect_shape [of h1 r 4 L "(0, 0, 0, 60)" "(2, 2)"] w1 hh1 al al8 by auto
  then have "\<exists>r2 h2. (if shadow then shadow_default L h1 r else Inr (r, h1)) = Inr (r2, h2)"
    by (simp add: shadow_default_def)
  then obtain r2 h2 where "(if shadow then shadow_default L h1 r else Inr (r, h1)) = Inr (r2, h2)"
    by blast
  then show ?thesis using a by (simp add: post_process_def a_def [symmetric])
qed

lemma generate_png_from_svg_size:
  assumes "0 \<le> sz"
      and "fst (generate_png_from_svg E svg_path sz output_path rounded shadow w) = Inr ()"
  shows "png_size_at (snd (generate_png_from_svg E svg_path sz output_path rounded shadow w)) output_path
           = Some (nat sz, nat sz)"
proof -
  let ?w1 = "w\<lparr>stdout := stdout w @ [''Generating '' @ path_name output_path @ '' ('' @ str_int sz @ ''x''
                          @ str_int sz @ '')'']\<rparr>"
  obtain im where load: "load_svg E svg_path sz ?w1 = (Inr im, ?w1)"
    and w: "width im = nat sz" and hh: "height im = nat sz"
    using assms(2)
    by (auto simp add: generate_png_from_svg_def io_bind_def py_print_def load_svg_def
        split: option.splits node.splits sum.splits)
  obtain out where out: "post_process (kernels E) im rounded shadow = Inr out"
    using assms(2) load
    by (cases "post_process (kernels E) im rounded shadow")
       (auto simp add: generate_png_from_svg_def io_bind_def py_print_def io_lift_def)
  have "width out = nat sz \<and> height out = nat sz"
    using post_process_size [OF _ out] w hh by simp
  then show ?thesis
    using assms(2) load out
    by (auto simp add: generate_png_from_svg_def io_bind_def py_print_def io_lift_def save_file_def
        png_size_at_def image_size_def split: if_splits)
qed

lemma vector_entries_nonneg: "(sz, filename, rounded, shadow) \<in> set vector_entries \<Longrightarrow> 0 \<le> sz"
  by (auto simp add: vector_entries_def sizes_def store_sizes_def)

lemma icon_configs_nonneg:
  "(sz, filename, rounded, description) \<in> set icon_configs \<Longrightarrow> 0 \<le> sz \<and> sz \<le> 1024"
  by (auto simp add: icon_configs_def)

lemma generate_png_from_svg_ok:
  assumes "0 \<le> sz" and "sz \<le> 1016" and "files w svg_path = Some (SvgFile doc)" and "svg2png E doc sz = Inr f"
      and "files w (path_parent output_path) = Some Dir" and "files w output_path \<noteq> Some Dir"
      and "disk_ok E output_path"
  shows "fst (generate_png_from_svg E svg_path sz output_path rounded shadow w) = Inr ()"
proof -
  let ?im = "\<lparr>width = nat sz, height = nat sz, pixels = raster (nat sz) (nat sz) f\<rparr>"
  have small: "width ?im \<le> 1016" using assms(1, 2) by simp
  obtain out where out: "post_process (kernels E) ?im rounded shadow = Inr out"
    using post_process_ok [OF _ small, of "kernels E" rounded shadow] by auto
  show ?thesis
    using assms out
    by (simp add: generate_png_from_svg_def io_bind_def py_print_def io_lift_def save_file_def
        load_svg_def)
qed

text \<open>
  Claim C2. For every configured entry the raster that is written has exactly the
  requested width and height, after rounding and shadow where they are enabled: in
  the vector pipeline whenever \<^verbatim>\<open>generate_png_from_svg\<close> returns, the file at its output
  path is a PNG of that size; in the procedural pipeline the icon of an entry is
  always produced and has that size.
\<close>

theorem configured_raster_size:
  "((sz, filename, rounded, shadow) \<in> set vector_entries \<longrightarrow>
      (\<forall>E svg_path output_path w.
         fst (generate_png_from_svg E svg_path sz output_path rounded shadow w) = Inr () \<longrightarrow>
         png_size_at (snd (generate_png_from_svg E svg_path sz output_path rounded shadow w)) output_path
           = Some (nat sz, nat sz)))
   \<and> ((sz2, filename2, rounded2, description) \<in> set icon_configs \<longrightarrow>
      (\<forall>L. \<exists>icon. simple_icon L sz2 rounded2 = Inr icon \<and> image_size icon = (nat sz2, nat sz2)))"
  using generate_png_from_svg_size vector_entries_nonneg icon_configs_nonneg simple_icon_size
  by (simp add: image_size_def)

theorem configured_raster_size_witness:
  "(128, ''128x128.png'', True, True) \<in> set vector_entries
   \<and> fst (generate_png_from_svg box_env [''design'', ''logo.svg''] 128
             [''src-tauri'', ''icons'', ''128x128.png''] True True svg_world) = Inr ()
   \<and> png_size_at (snd (generate_png_from_svg box_env [''design'', ''logo.svg''] 128
             [''src-tauri'', ''icons'', ''128x128.png''] True True svg_world))
         [''src-tauri'', ''icons'', ''128x128.png''] = Some (128, 128)
   \<and> (32, ''32x32.png'', False, ''Small app icon'') \<in> set icon_configs
   \<and> (\<exists>icon. simple_icon box_lib 32 False = Inr icon \<and> image_size icon = (32, 32))"
proof -
  have e1: "(128, ''128x128.png'', True, True) \<in> set vector_entries"
    by (simp add: vector_entries_def sizes_def)
  have e2: "(32, ''32x32.png'', False, ''Small app icon'') \<in> set icon_configs"
    by (simp add: icon_configs_def)
  have run: "fst (generate_png_from_svg box_env [''design'', ''logo.svg''] 128
             [''src-tauri'', ''icons'', ''128x128.png''] True True svg_world) = Inr ()"
    by (rule generate_png_from_svg_ok [where doc = "''<svg/>''" and f = "\<lambda>x y. (0, 0, 0, 0)"])
       (simp_all add: svg_world_def box_env_def path_parent_def)
  show ?thesis
    using e1 e2 run
      configured_raster_size [of 128 "''128x128.png''" True True 32 "''32x32.png''" False "''Small app icon''"]
    by simp
qed

section \<open>The missing source and the ICO frames\<close>

lemma generate_png_files_missing_svg:
  assumes "files w (root @ [''design'', ''logo.svg'']) = None"
  shows "fst (generate_png_files E root w) = Inl (SystemExit 1)
       \<and> files (snd (generate_png_files E root w)) = files w"
  using assms
  by (simp add: generate_png_files_def io_bind_def py_print_def io_raise_def path_exists_def Let_def)

text \<open>
  Claim C6. In the vector pipeline, when the SVG source does not exist the run ends at
  once in \<^verbatim>\<open>sys.exit(1)\<close>: the exit status is 1 and the file tree is what it was
  before the run, so no PNG file has been written.
\<close>

theorem missing_svg_aborts_run:
  assumes "files w (root @ [''design'', ''logo.svg'']) = None"
  shows "fst (generate_icons_main E root w) = Inl (SystemExit 1)
       \<and> exit_status (fst (generate_icons_main E root w)) = 1
       \<and> files (snd (generate_icons_main E root w)) = files w"
proof -
  obtain w' where run: "generate_png_files E root w = (Inl (SystemExit 1), w')" and same: "files w' = files w"
    using generate_png_files_missing_svg [OF assms, of E]
    by (cases "generate_png_files E root w") auto
  then show ?thesis
    by (simp add: generate_icons_main_def Let_def io_bind_def)
qed

theorem missing_svg_aborts_run_witness:
  "files png_world ([] @ [''design'', ''logo.svg'']) = None
   \<and> fst (generate_icons_main box_env [] png_world) = Inl (SystemExit 1)
   \<and> exit_status (fst (generate_icons_main box_env [] png_world)) = 1
   \<and> files (snd (generate_icons_main box_env [] png_world)) = files png_world"
proof -
  have missing: "files png_world ([] @ [''design'', ''logo.svg'']) = None"
    by (simp add: png_world_def)
  show ?thesis
    using missing missing_svg_aborts_run [OF missing, of box_env] by simp
qed

lemma ico_frames_of_smallest:
  assumes "width im = 16" and "height im = 16"
  shows "ico_frames L im [(16, 16), (24, 24), (32, 32), (48, 48), (64, 64), (128, 128), (256, 256)] = [im]"
  using assms by (simp add: ico_frames_def)

lemma generate_ico_body_frames:
  assumes "files w png = Some (PngFile base)"
      and "fst (generate_ico_body E png ico w) = Inr ()"
  shows "ico_sizes_at (snd (generate_ico_body E png ico w)) ico = Some [(16, 16)]"
proof -
  let ?im = "resize (kernels E) base 16 16"
  have fr: "ico_frames (kernels E) ?im
      [(16, 16), (24, 24), (32, 32), (48, 48), (64, 64), (128, 128), (256, 256)] = [?im]"
    by (rule ico_frames_of_smallest) (simp_all add: resize_def)
  show ?thesis
    using assms fr
    by (auto simp add: generate_ico_body_def io_bind_def Image_open_def ico_sizes_def Let_def
        save_ico_def save_file_def py_print_def image_size_def ico_sizes_at_def resize_def
        split: if_splits)
qed

text \<open>The procedural pipeline saves its 16 by 16 render in the same way.\<close>

lemma volcanic_image:
  assumes "0 \<le> sz" and "sz \<le> 1024"
  shows "\<exists>icon. result_image (create_volcanic_icon L [] sz) = Inr icon
           \<and> image_size icon = (nat sz, nat sz)"
proof -
  have "allocatable L (nat sz) (nat sz)" using assms by (intro small_allocatable) simp_all
  then show ?thesis
    using create_volcanic_icon_size [OF assms(1), of L "[]"]
    by (auto simp add: result_image_def image_size_def)
qed

lemma simple_ico_body_frames:
  assumes "fst (simple_ico_body E icons_dir w) = Inr ()"
  shows "ico_sizes_at (snd (simple_ico_body E icons_dir w)) (icons_dir @ [''icon.ico''])
           = Some [(16, 16)]"
proof -
  let ?render = "\<lambda>sz. result_image (create_volcanic_icon (kernels E) [] sz)"
  obtain i16 where i16: "?render 16 = Inr i16" "image_size i16 = (16, 16)"
    using volcanic_image [of 16 "kernels E"] by auto
  obtain i24 where i24: "?render 24 = Inr i24" "image_size i24 = (24, 24)"
    using volcanic_image [of 24 "kernels E"] by auto
  obtain i32 where i32: "?render 32 = Inr i32" "image_size i32 = (32, 32)"
    using volcanic_image [of 32 "kernels E"] by auto
  obtain i48 where i48: "?render 48 = Inr i48" "image_size i48 = (48, 48)"
    using volcanic_image [of 48 "kernels E"] by auto
  obtain i64 where i64: "?render 64 = Inr i64" "image_size i64 = (64, 64)"
    using volcanic_image [of 64 "kernels E"] by auto
  obtain i128 where i128: "?render 128 = Inr i128" "image_size i128 = (128, 128)"
    using volcanic_image [of 128 "kernels E"] by auto
  obtain i256 where i256: "?render 256 = Inr i256" "image_size i256 = (256, 256)"
    using volcanic_image [of 256 "kernels E"] by auto
  have all: "collect (map (\<lambda>sz. ?render (int sz)) ico_sizes) = Inr [i16, i24, i32, i48, i64, i128, i256]"
    using i16 i24 i32 i48 i64 i128 i256 by (simp add: ico_sizes_def)
  have fr: "ico_frames (kernels E) i16
      [(16, 16), (24, 24), (32, 32), (48, 48), (64, 64), (128, 128), (256, 256)] = [i16]"
    using i16(2) by (intro ico_frames_of_smallest) (simp_all add: image_size_def)
  show ?thesis
    using assms all fr i16 i24 i32 i48 i64 i128 i256
    by (auto simp add: simple_ico_body_def io_bind_def io_lift_def Let_def save_ico_def
        save_file_def py_print_def ico_sizes_at_def split: if_splits)
qed

text \<open>
  Claim C8 says that ICO emission from a 512 by 512 base image yields frames at the
  sizes 16, 24, 32, 48, 64, 128 and 256. The code saves the first of its resized
  images, the 16 by 16 one, and hands the other sizes to the writer only as numbers;
  the writer ignores every size larger than the image it saves. Run on a 512 by 512
  base image, \<^verbatim>\<open>generate_ico\<close> writes a file whose only frame is 16 by 16.
\<close>

theorem generate_ico_single_frame:
  "ico_sizes_at (snd (generate_ico box_env [''src-tauri'', ''icons'', ''icon.png'']
                       [''src-tauri'', ''icons'', ''icon.ico''] base512_world))
     [''src-tauri'', ''icons'', ''icon.ico''] = Some [(16, 16)]"
proof -
  let ?png = "[''src-tauri'', ''icons'', ''icon.png'']" and ?ico = "[''src-tauri'', ''icons'', ''icon.ico'']"
  have f: "files base512_world ?png = Some (PngFile blank512)"
    by (simp add: base512_world_def)
  let ?im = "resize box_lib blank512 16 16"
  have fr: "ico_frames box_lib ?im
      [(16, 16), (24, 24), (32, 32), (48, 48), (64, 64), (128, 128), (256, 256)] = [?im]"
    by (rule ico_frames_of_smallest) (simp_all add: resize_def)
  have ok: "fst (generate_ico_body box_env ?png ?ico base512_world) = Inr ()"
    using fr
    by (simp add: generate_ico_body_def io_bind_def Image_open_def ico_sizes_def Let_def
        save_ico_def save_file_def py_print_def image_size_def resize_def base512_world_def
        box_env_def path_parent_def)
  have "ico_sizes_at (snd (generate_ico_body box_env ?png ?ico base512_world)) ?ico = Some [(16, 16)]"
    using f ok by (rule generate_ico_body_frames)
  then show ?thesis
    using ok
    by (cases "generate_ico_body box_env ?png ?ico base512_world")
       (simp add: generate_ico_def except_Exception_def)
qed

section \<open>Packaging failures\<close>

lemma no_exitD: "no_exit m \<Longrightarrow> m w = (Inl e, w') \<Longrightarrow> is_Exception e"
  unfolding no_exit_def by (metis fst_conv)

lemma no_exit_bind:
  assumes "no_exit m" and "\<And>x. no_exit (f x)"
  shows "no_exit (io_bind m f)"
  unfolding no_exit_def
proof (intro allI impI)
  fix w e assume r: "fst (io_bind m f w) = Inl e"
  obtain a w' where mw: "m w = (a, w')" by (cases "m w")
  show "is_Exception e"
  proof (cases a)
    case (Inl e')
    then have "e' = e" using r mw by (simp add: io_bind_def)
    moreover have "is_Exception e'" using assms(1) mw Inl by (auto dest: no_exitD)
    ultimately show ?thesis by simp
  next
    case (Inr x)
    then have "fst (f x w') = Inl e" using r mw by (simp add: io_bind_def)
    then show ?thesis using assms(2) by (auto simp add: no_exit_def)
  qed
qed

lemma no_exit_print: "no_exit (py_print s)"
  by (simp add: no_exit_def py_print_def)

lemma no_exit_mkdir: "no_exit (mkdir_exist_ok p)"
  by (auto simp add: no_exit_def mkdir_exist_ok_def split: option.splits node.splits)

lemma no_exit_open: "no_exit (Image_open p)"
  by (auto simp add: no_exit_def Image_open_def split: option.splits node.splits)

lemma no_exit_save: "no_exit (save_file E p n)"
  by (auto simp add: no_exit_def save_file_def)

lemma no_exit_rmtree: "no_exit (rmtree E d)"
  by (auto simp add: no_exit_def rmtree_def split: option.splits)

lemma no_exit_iconutil: "no_exit (run_iconutil E d q)"
  by (auto simp add: no_exit_def run_iconutil_def Let_def split: option.splits)

lemma no_exit_for_each:
  assumes "\<And>x. no_exit (f x)"
  shows "no_exit (for_each xs f)"
proof (induction xs)
  case Nil
  show ?case by (simp add: no_exit_def io_return_def)
next
  case (Cons x xs)
  show ?case using assms Cons by (simp add: no_exit_bind)
qed

lemma no_exit_icns_stage: "no_exit (icns_stage E png icns)"
  unfolding icns_stage_def Let_def
  by (intro no_exit_bind no_exit_mkdir no_exit_open no_exit_for_each no_exit_iconutil)
     (auto simp add: no_exit_save)

lemma no_exit_icns_body: "no_exit (generate_icns_body E png icns)"
  unfolding generate_icns_body_def
  by (intro no_exit_bind no_exit_icns_stage)
     (auto intro!: no_exit_bind no_exit_print no_exit_rmtree)

lemma no_exit_ico_body: "no_exit (generate_ico_body E png ico)"
  unfolding generate_ico_body_def Let_def save_ico_def
  by (intro no_exit_bind no_exit_open no_exit_save no_exit_print)

lemma except_print_ok:
  assumes "no_exit body"
  shows "fst (except_Exception body (\<lambda>e. py_print (msg e)) w) = Inr ()"
proof (cases "body w")
  case (Pair a w')
  show ?thesis
  proof (cases a)
    case (Inl e)
    then have "is_Exception e" using assms Pair by (auto dest: no_exitD)
    then show ?thesis using Pair Inl by (simp add: except_Exception_def py_print_def)
  next
    case (Inr x)
    then show ?thesis using Pair by (simp add: except_Exception_def)
  qed
qed

lemma except_print_warns:
  assumes "no_exit body" and "fst (body w) = Inl e"
  shows "snd (except_Exception body (\<lambda>e. py_print (msg e)) w)
           = (snd (body w))\<lparr>stdout := stdout (snd (body w)) @ [msg e]\<rparr>"
proof -
  have "is_Exception e" using assms by (auto simp add: no_exit_def)
  then show ?thesis using assms(2)
    by (cases "body w") (simp add: except_Exception_def py_print_def)
qed

lemma generate_icns_ok: "fst (generate_icns E png icns w) = Inr ()"
  unfolding generate_icns_def by (rule except_print_ok) (rule no_exit_icns_body)

lemma generate_ico_ok: "fst (generate_ico E png ico w) = Inr ()"
  unfolding generate_ico_def by (rule except_print_ok) (rule no_exit_ico_body)

lemma bind_ok:
  assumes "fst (m w) = Inr x"
  shows "io_bind m f w = f x (snd (m w))"
  using assms by (cases "m w") (simp add: io_bind_def)

lemma print_ok: "fst (py_print s w) = Inr ()"
  by (simp add: py_print_def)

lemma main_continues:
  assumes "fst (generate_png_files E root w) = Inr ()"
  shows "fst (generate_icons_main E root w) = Inr ()"
  using assms
  by (simp add: generate_icons_main_def Let_def bind_ok print_ok generate_icns_ok generate_ico_ok)

lemma for_each_invariant:
  assumes "\<And>x w. P w \<Longrightarrow> P (snd (f x w))" and "P w"
  shows "P (snd (for_each xs f w))"
  using assms(2)
proof (induction xs arbitrary: w)
  case Nil
  then show ?case by (simp add: io_return_def)
next
  case (Cons x xs)
  have step: "P (snd (f x w))" using assms(1) Cons.prems by simp
  show ?case
  proof (cases "f x w")
    case (Pair a w')
    then have w': "P w'" using step by simp
    show ?thesis
    proof (cases a)
      case (Inl e)
      then show ?thesis using Pair w' by (simp add: io_bind_def)
    next
      case (Inr u)
      then show ?thesis using Pair Cons.IH [OF w'] by (simp add: io_bind_def)
    qed
  qed
qed

lemma save_file_keeps_dir:
  "files w d = Some Dir \<Longrightarrow> files (snd (save_file E (d @ [name]) n w)) d = Some Dir"
  by (simp add: save_file_def)

lemma staging_keeps_dir:
  assumes "files w d = Some Dir"
  shows "files (snd (for_each iconset_sizes (\<lambda>(sz, filename).
                    let resized = (if sz \<le> 512 then resize L base sz sz else resize L base sz sz)
                    in save_file E (d @ [filename]) (PngFile resized)) w)) d = Some Dir"
  by (rule for_each_invariant [where P = "\<lambda>w. files w d = Some Dir"])
     (auto simp add: save_file_keeps_dir assms)

lemma mkdir_makes_dir:
  "fst (mkdir_exist_ok d w) = Inr () \<Longrightarrow> files (snd (mkdir_exist_ok d w)) d = Some Dir"
  by (auto simp add: mkdir_exist_ok_def split: option.splits node.splits)

lemma Image_open_world: "snd (Image_open p w) = w"
  by (auto simp add: Image_open_def split: option.splits node.splits)

lemma run_iconutil_keeps:
  assumes "\<And>err. fst (run_iconutil E d q w) \<noteq> Inr (0, err)"
  shows "snd (run_iconutil E d q w) = w"
proof (cases "iconutil E")
  case None
  then show ?thesis by (simp add: run_iconutil_def)
next
  case (Some tool)
  then have "fst (tool (staged_frames w d)) \<noteq> 0"
    using assms [of "snd (tool (staged_frames w d))"]
    by (auto simp add: run_iconutil_def Let_def prod_eq_iff)
  then show ?thesis using Some by (simp add: run_iconutil_def Let_def)
qed

lemma icns_stage_keeps_dir:
  assumes mk: "fst (mkdir_exist_ok (iconset_dir_of icns) w) = Inr ()"
      and fail: "\<And>err. fst (icns_stage E png icns w) \<noteq> Inr (0, err)"
  shows "files (snd (icns_stage E png icns w)) (iconset_dir_of icns) = Some Dir"
proof -
  let ?d = "iconset_dir_of icns"
  let ?loop = "\<lambda>base. for_each iconset_sizes (\<lambda>(sz, filename).
                    let resized = (if sz \<le> 512 then resize (kernels E) base sz sz
                                   else resize (kernels E) base sz sz)
                    in save_file E (?d @ [filename]) (PngFile resized))"
  obtain w0 where w0: "mkdir_exist_ok ?d w = (Inr (), w0)"
    using mk by (cases "mkdir_exist_ok ?d w") auto
  have d0: "files w0 ?d = Some Dir" using mkdir_makes_dir [OF mk] w0 by simp
  show ?thesis
  proof (cases "Image_open png w0")
    case (Pair a w1)
    have w1: "w1 = w0" using Image_open_world [of png w0] Pair by simp
    show ?thesis
    proof (cases a)
      case (Inl e)
      then show ?thesis using w0 Pair w1 d0 by (simp add: icns_stage_def Let_def io_bind_def)
    next
      case (Inr base)
      have d2: "files (snd (?loop base w0)) ?d = Some Dir"
        using d0 by (rule staging_keeps_dir)
      show ?thesis
      proof (cases "?loop base w0")
        case (Pair b w2)
        then have dw2: "files w2 ?d = Some Dir" using d2 by simp
        show ?thesis
        proof (cases b)
          case (Inl e)
          then show ?thesis
            using w0 \<open>Image_open png w0 = (a, w1)\<close> \<open>a = Inr base\<close> w1 Pair dw2
            by (simp add: icns_stage_def Let_def io_bind_def)
        next
          case (Inr u)
          have st: "icns_stage E png icns w = run_iconutil E ?d icns w2"
            using w0 \<open>Image_open png w0 = (a, w1)\<close> \<open>a = Inr base\<close> w1 Pair Inr
            by (simp add: icns_stage_def Let_def io_bind_def)
          have "snd (run_iconutil E ?d icns w2) = w2"
            using fail st by (intro run_iconutil_keeps) simp
          then show ?thesis using st dw2 by simp
        qed
      qed
    qed
  qed
qed

lemma generate_icns_after_failure:
  assumes "\<And>err. fst (icns_stage E png icns w) \<noteq> Inr (0, err)"
  shows "files (snd (generate_icns E png icns w)) = files (snd (icns_stage E png icns w))"
proof (cases "icns_stage E png icns w")
  case (Pair a w1)
  show ?thesis
  proof (cases a)
    case (Inl e)
    have b: "generate_icns_body E png icns w = (Inl e, w1)"
      using Pair Inl by (simp add: generate_icns_body_def io_bind_def)
    have "is_Exception e" using no_exit_icns_stage Pair Inl by (auto dest: no_exitD)
    then show ?thesis using b Pair by (simp add: generate_icns_def except_Exception_def py_print_def)
  next
    case (Inr res)
    then have "fst res \<noteq> 0" using assms [of "snd res"] Pair by (auto simp add: prod_eq_iff)
    then show ?thesis
      using Pair Inr
      by (simp add: generate_icns_def except_Exception_def generate_icns_body_def io_bind_def
          py_print_def)
  qed
qed

lemma generate_icns_after_success:
  assumes "fst (icns_stage E png icns w) = Inr (0, err)"
      and "rmtree_outcome E (iconset_dir_of icns) = None"
      and "prefix (iconset_dir_of icns) x"
  shows "files (snd (generate_icns E png icns w)) x = None"
  using assms
  by (cases "icns_stage E png icns w")
     (simp add: generate_icns_def except_Exception_def generate_icns_body_def io_bind_def
        py_print_def rmtree_def)

lemma generate_icns_removal_fails:
  assumes "fst (icns_stage E png icns w) = Inr (0, err)"
      and "rmtree_outcome E (iconset_dir_of icns) = Some kept"
  shows "fst (generate_icns_body E png icns w) = Inl OSError
       \<and> files (snd (generate_icns E png icns w)) (iconset_dir_of icns)
           = files (snd (icns_stage E png icns w)) (iconset_dir_of icns)"
  using assms
  by (cases "icns_stage E png icns w")
     (simp add: generate_icns_def except_Exception_def generate_icns_body_def io_bind_def
        py_print_def rmtree_def)

lemma generate_icns_tool_warning:
  assumes "fst (icns_stage E png icns w) = Inr (rc, err)" and "rc \<noteq> 0"
  shows "stdout (snd (generate_icns E png icns w))
           = stdout (snd (icns_stage E png icns w)) @ [''Warning: iconutil failed: '' @ err]"
  using assms
  by (cases "icns_stage E png icns w")
     (simp add: generate_icns_def except_Exception_def generate_icns_body_def io_bind_def
        py_print_def)

text \<open>
  Claim C7, as amended. Whatever fails inside the ICNS or ICO packaging is caught:
  both functions always return normally, and once the PNG files are written the run
  ends with exit status 0. An exception of the \<^verbatim>\<open>try\<close> body is reported as a printed
  warning that carries its text, and a non-zero return code of \<^verbatim>\<open>iconutil\<close> as a
  warning with the tool's error text. When the tool returns 0 and the removal of the
  staging directory succeeds, the directory and everything below it is gone
  afterwards. When the staging directory was created and the tool does not return 0,
  be it by an exception or by a non-zero return code, the directory is still there;
  and when the tool returns 0 but the removal fails, the failure is an exception of
  the body like any other and the directory is as the tool left it.
\<close>

theorem packaging_failures_are_warnings:
  "fst (generate_icns E png icns w) = Inr ()
   \<and> fst (generate_ico E png ico w) = Inr ()
   \<and> (fst (generate_png_files E root w) = Inr () \<longrightarrow>
        exit_status (fst (generate_icons_main E root w)) = 0)
   \<and> (fst (generate_icns_body E png icns w) = Inl e \<longrightarrow>
        stdout (snd (generate_icns E png icns w))
          = stdout (snd (generate_icns_body E png icns w))
            @ [''Warning: Could not generate .icns file: '' @ exn_text E e])
   \<and> (fst (icns_stage E png icns w) = Inr (rc, err) \<and> rc \<noteq> 0 \<longrightarrow>
        stdout (snd (generate_icns E png icns w))
          = stdout (snd (icns_stage E png icns w)) @ [''Warning: iconutil failed: '' @ err])
   \<and> (fst (generate_ico_body E png ico w) = Inl e2 \<longrightarrow>
        stdout (snd (generate_ico E png ico w))
          = stdout (snd (generate_ico_body E png ico w))
            @ [''Warning: Could not generate .ico file: '' @ exn_text E e2])
   \<and> (fst (icns_stage E png icns w) = Inr (0, err0)
        \<and> rmtree_outcome E (iconset_dir_of icns) = None \<longrightarrow>
        (\<forall>x. prefix (iconset_dir_of icns) x \<longrightarrow> files (snd (generate_icns E png icns w)) x = None))
   \<and> (fst (icns_stage E png icns w) = Inr (0, err0)
        \<and> rmtree_outcome E (iconset_dir_of icns) = Some kept \<longrightarrow>
        fst (generate_icns_body E png icns w) = Inl OSError
        \<and> files (snd (generate_icns E png icns w)) (iconset_dir_of icns)
            = files (snd (icns_stage E png icns w)) (iconset_dir_of icns))
   \<and> (fst (mkdir_exist_ok (iconset_dir_of icns) w) = Inr ()
        \<and> (\<forall>err. fst (icns_stage E png icns w) \<noteq> Inr (0, err)) \<longrightarrow>
        files (snd (generate_icns E png icns w)) (iconset_dir_of icns) = Some Dir)"
proof (intro conjI impI allI)
  show "fst (generate_icns E png icns w) = Inr ()" by (rule generate_icns_ok)
  show "fst (generate_ico E png ico w) = Inr ()" by (rule generate_ico_ok)
next
  assume "fst (generate_png_files E root w) = Inr ()"
  then show "exit_status (fst (generate_icons_main E root w)) = 0"
    by (simp add: main_continues)
next
  assume "fst (generate_icns_body E png icns w) = Inl e"
  then show "stdout (snd (generate_icns E png icns w))
          = stdout (snd (generate_icns_body E png icns w))
            @ [''Warning: Could not generate .icns file: '' @ exn_text E e]"
    unfolding generate_icns_def
    by (simp add: except_print_warns [OF no_exit_icns_body])
next
  assume "fst (icns_stage E png icns w) = Inr (rc, err) \<and> rc \<noteq> 0"
  then show "stdout (snd (generate_icns E png icns w))
          = stdout (snd (icns_stage E png icns w)) @ [''Warning: iconutil failed: '' @ err]"
    by (simp add: generate_icns_tool_warning)
next
  assume "fst (generate_ico_body E png ico w) = Inl e2"
  then show "stdout (snd (generate_ico E png ico w))
          = stdout (snd (generate_ico_body E png ico w))
            @ [''Warning: Could not generate .ico file: '' @ exn_text E e2]"
    unfolding generate_ico_def
    by (simp add: except_print_warns [OF no_exit_ico_body])
next
  fix x assume "fst (icns_stage E png icns w) = Inr (0, err0)
        \<and> rmtree_outcome E (iconset_dir_of icns) = None" "prefix (iconset_dir_of icns) x"
  then show "files (snd (generate_icns E png icns w)) x = None"
    by (intro generate_icns_after_success [where err = err0]) simp_all
next
  assume a: "fst (icns_stage E png icns w) = Inr (0, err0)
        \<and> rmtree_outcome E (iconset_dir_of icns) = Some kept"
  then show "fst (generate_icns_body E png icns w) = Inl OSError"
    using generate_icns_removal_fails [of E png icns w err0 kept] by simp
  show "files (snd (generate_icns E png icns w)) (iconset_dir_of icns)
            = files (snd (icns_stage E png icns w)) (iconset_dir_of icns)"
    using a generate_icns_removal_fails [of E png icns w err0 kept] by simp
next
  assume a: "fst (mkdir_exist_ok (iconset_dir_of icns) w) = Inr ()
        \<and> (\<forall>err. fst (icns_stage E png icns w) \<noteq> Inr (0, err))"
  then have "files (snd (icns_stage E png icns w)) (iconset_dir_of icns) = Some Dir"
    by (intro icns_stage_keeps_dir) simp_all
  then show "files (snd (generate_icns E png icns w)) (iconset_dir_of icns) = Some Dir"
    using a by (simp add: generate_icns_after_failure)
qed

lemma for_each_ok:
  assumes "\<And>x w. x \<in> set xs \<Longrightarrow> P w \<Longrightarrow> fst (f x w) = Inr () \<and> P (snd (f x w))" and "P w"
  shows "fst (for_each xs f w) = Inr () \<and> P (snd (for_each xs f w))"
  using assms
proof (induction xs arbitrary: w)
  case Nil
  then show ?case by (simp add: io_return_def)
next
  case (Cons x xs)
  have step: "fst (f x w) = Inr () \<and> P (snd (f x w))" using Cons.prems by simp
  then have "fst (for_each xs f (snd (f x w))) = Inr () \<and> P (snd (for_each xs f (snd (f x w))))"
    using Cons.prems(1) by (intro Cons.IH) simp_all
  then show ?case using step by (simp add: bind_ok)
qed

lemma generate_png_from_svg_files:
  assumes "fst (generate_png_from_svg E svg_path sz output_path rounded shadow w) = Inr ()"
  shows "\<exists>im. files (snd (generate_png_from_svg E svg_path sz output_path rounded shadow w))
           = (files w)(output_path \<mapsto> PngFile im)"
  using assms
  by (auto simp add: generate_png_from_svg_def io_bind_def py_print_def io_lift_def save_file_def
        load_svg_def split: option.splits node.splits sum.splits if_splits)

lemma ready_step:
  assumes "ready w" and "0 \<le> sz \<and> sz \<le> 1016"
  shows "fst (generate_png_from_svg box_env [''design'', ''logo.svg''] sz
                [''src-tauri'', ''icons'', name] rounded shadow w) = Inr ()
       \<and> ready (snd (generate_png_from_svg box_env [''design'', ''logo.svg''] sz
                [''src-tauri'', ''icons'', name] rounded shadow w))"
proof -
  let ?run = "generate_png_from_svg box_env [''design'', ''logo.svg''] sz
                [''src-tauri'', ''icons'', name] rounded shadow w"
  have ok: "fst ?run = Inr ()"
    using assms
    by (intro generate_png_from_svg_ok [where doc = "''<svg/>''" and f = "\<lambda>x y. (0, 0, 0, 0)"])
       (simp_all add: ready_def box_env_def path_parent_def)
  obtain im where "files (snd ?run) = (files w)([''src-tauri'', ''icons'', name] \<mapsto> PngFile im)"
    using generate_png_from_svg_files [OF ok] by blast
  then have "ready (snd ?run)" using assms(1) by (simp add: ready_def)
  then show ?thesis using ok by simp
qed

lemma generate_png_files_ok: "fst (generate_png_files box_env [] svg_world) = Inr ()"
proof -
  let ?w1 = "svg_world\<lparr>stdout := [''Code Furnace Icon Generator'', replicate 40 (CHR ''='')]\<rparr>"
  have r1: "ready ?w1" by (simp add: ready_def svg_world_def)
  let ?f1 = "\<lambda>(sz, filename, rounded, shadow).
                        generate_png_from_svg box_env [''design'', ''logo.svg''] sz
                          [''src-tauri'', ''icons'', filename] rounded shadow"
  let ?f2 = "\<lambda>(sz, filename).
               generate_png_from_svg box_env [''design'', ''logo.svg''] sz
                 [''src-tauri'', ''icons'', filename] True False"
  have a: "fst (for_each sizes ?f1 ?w1) = Inr () \<and> ready (snd (for_each sizes ?f1 ?w1))"
  proof (rule for_each_ok [where P = ready])
    fix x :: "int \<times> string \<times> bool \<times> bool" and w
    assume x: "x \<in> set sizes" and rw: "ready w"
    obtain sz name r s where xe: "x = (sz, name, r, s)" by (cases x) auto
    have "0 \<le> sz \<and> sz \<le> 1016" using x xe by (auto simp add: sizes_def)
    then show "fst (?f1 x w) = Inr () \<and> ready (snd (?f1 x w))"
      using ready_step [OF rw] by (simp add: xe)
  qed (rule r1)
  have b: "fst (for_each store_sizes ?f2 (snd (for_each sizes ?f1 ?w1))) = Inr ()
     \<and> ready (snd (for_each store_sizes ?f2 (snd (for_each sizes ?f1 ?w1))))"
  proof (rule for_each_ok [where P = ready])
    fix x :: "int \<times> string" and w
    assume x: "x \<in> set store_sizes" and rw: "ready w"
    obtain sz name where xe: "x = (sz, name)" by (cases x) auto
    have "0 \<le> sz \<and> sz \<le> 1016" using x xe by (auto simp add: store_sizes_def)
    then show "fst (?f2 x w) = Inr () \<and> ready (snd (?f2 x w))"
      using ready_step [OF rw] by (simp add: xe)
  qed (simp add: a)
  have pre: "generate_png_files box_env [] svg_world
      = io_bind (for_each sizes ?f1) (\<lambda>u. for_each store_sizes ?f2) ?w1"
    by (simp add: generate_png_files_def box_env_def Let_def io_bind_def path_exists_def
        mkdir_exist_ok_def py_print_def svg_world_def)
  show ?thesis using a b by (simp add: pre bind_ok)
qed

lemma reference_texts:
  "exn_text box_env e = box_text e" "exn_text full_disk_env e = box_text e"
  by (simp_all add: box_env_def full_disk_env_def)

lemma iconset_dir_icon:
  "iconset_dir_of [''src-tauri'', ''icons'', ''icon.icns''] = [''src-tauri'', ''icons'', ''icon.iconset'']"
  by (simp add: iconset_dir_of_def path_parent_def path_stem_def path_name_def Let_def)

lemma mkdir_png_world:
  "fst (mkdir_exist_ok [''src-tauri'', ''icons'', ''icon.iconset''] png_world) = Inr ()"
  by (simp add: mkdir_exist_ok_def png_world_def path_parent_def)

lemma stage_tool_missing:
  "fst (icns_stage box_env [''src-tauri'', ''icons'', ''icon.png'']
          [''src-tauri'', ''icons'', ''icon.icns''] png_world) = Inl FileNotFoundError
   \<and> stdout (snd (icns_stage box_env [''src-tauri'', ''icons'', ''icon.png'']
          [''src-tauri'', ''icons'', ''icon.icns''] png_world)) = []"
  by (simp add: icns_stage_def iconset_dir_icon Let_def io_bind_def mkdir_exist_ok_def png_world_def
      path_parent_def Image_open_def iconset_sizes_def save_file_def io_return_def
      run_iconutil_def box_env_def)

lemma stage_tool_ok:
  "fst (icns_stage tool_env [''src-tauri'', ''icons'', ''icon.png'']
          [''src-tauri'', ''icons'', ''icon.icns''] png_world) = Inr (0, [])"
  by (simp add: icns_stage_def iconset_dir_icon Let_def io_bind_def mkdir_exist_ok_def png_world_def
      path_parent_def Image_open_def iconset_sizes_def save_file_def io_return_def
      run_iconutil_def box_env_def tool_env_def)

lemma stage_tool_fails:
  "fst (icns_stage failing_tool_env [''src-tauri'', ''icons'', ''icon.png'']
          [''src-tauri'', ''icons'', ''icon.icns''] png_world) = Inr (1, ''Invalid Iconset'')
   \<and> stdout (snd (icns_stage failing_tool_env [''src-tauri'', ''icons'', ''icon.png'']
          [''src-tauri'', ''icons'', ''icon.icns''] png_world)) = []"
  by (simp add: icns_stage_def iconset_dir_icon Let_def io_bind_def mkdir_exist_ok_def png_world_def
      path_parent_def Image_open_def iconset_sizes_def save_file_def io_return_def
      run_iconutil_def box_env_def failing_tool_env_def)

lemma stage_stuck:
  "fst (icns_stage stuck_env [''src-tauri'', ''icons'', ''icon.png'']
          [''src-tauri'', ''icons'', ''icon.icns''] png_world) = Inr (0, [])
   \<and> files (snd (icns_stage stuck_env [''src-tauri'', ''icons'', ''icon.png'']
          [''src-tauri'', ''icons'', ''icon.icns''] png_world))
         [''src-tauri'', ''icons'', ''icon.iconset''] = Some Dir"
  by (simp add: icns_stage_def iconset_dir_icon Let_def io_bind_def mkdir_exist_ok_def png_world_def
      path_parent_def Image_open_def iconset_sizes_def save_file_def io_return_def
      run_iconutil_def box_env_def tool_env_def stuck_env_def)

lemma ico_disk_full:
  "fst (generate_ico_body full_disk_env [''src-tauri'', ''icons'', ''icon.png'']
          [''src-tauri'', ''icons'', ''icon.ico''] png_world) = Inl OSError
   \<and> stdout (snd (generate_ico_body full_disk_env [''src-tauri'', ''icons'', ''icon.png'']
          [''src-tauri'', ''icons'', ''icon.ico''] png_world)) = []"
  by (simp add: generate_ico_body_def io_bind_def Image_open_def Let_def save_ico_def save_file_def
      png_world_def path_parent_def full_disk_env_def box_env_def)

lemma body_tool_missing:
  "fst (generate_icns_body box_env [''src-tauri'', ''icons'', ''icon.png'']
          [''src-tauri'', ''icons'', ''icon.icns''] png_world) = Inl FileNotFoundError
   \<and> stdout (snd (generate_icns_body box_env [''src-tauri'', ''icons'', ''icon.png'']
          [''src-tauri'', ''icons'', ''icon.icns''] png_world)) = []"
  using stage_tool_missing
  by (cases "icns_stage box_env [''src-tauri'', ''icons'', ''icon.png'']
          [''src-tauri'', ''icons'', ''icon.icns''] png_world")
     (simp add: generate_icns_body_def io_bind_def)

theorem packaging_failures_are_warnings_witness:
  "fst (generate_png_files box_env [] svg_world) = Inr ()
   \<and> exit_status (fst (generate_icons_main box_env [] svg_world)) = 0
   \<and> fst (generate_icns_body box_env [''src-tauri'', ''icons'', ''icon.png'']
            [''src-tauri'', ''icons'', ''icon.icns''] png_world) = Inl FileNotFoundError
   \<and> fst (generate_icns box_env [''src-tauri'', ''icons'', ''icon.png'']
            [''src-tauri'', ''icons'', ''icon.icns''] png_world) = Inr ()
   \<and> stdout (snd (generate_icns box_env [''src-tauri'', ''icons'', ''icon.png'']
            [''src-tauri'', ''icons'', ''icon.icns''] png_world))
       = [''Warning: Could not generate .icns file: [Errno 2] No such file or directory'']
   \<and> files (snd (generate_icns box_env [''src-tauri'', ''icons'', ''icon.png'']
            [''src-tauri'', ''icons'', ''icon.icns''] png_world))
         [''src-tauri'', ''icons'', ''icon.iconset''] = Some Dir
   \<and> stdout (snd (generate_icns failing_tool_env [''src-tauri'', ''icons'', ''icon.png'']
            [''src-tauri'', ''icons'', ''icon.icns''] png_world))
       = [''Warning: iconutil failed: Invalid Iconset'']
   \<and> files (snd (generate_icns failing_tool_env [''src-tauri'', ''icons'', ''icon.png'']
            [''src-tauri'', ''icons'', ''icon.icns''] png_world))
         [''src-tauri'', ''icons'', ''icon.iconset''] = Some Dir
   \<and> fst (icns_stage tool_env [''src-tauri'', ''icons'', ''icon.png'']
            [''src-tauri'', ''icons'', ''icon.icns''] png_world) = Inr (0, [])
   \<and> files (snd (generate_icns tool_env [''src-tauri'', ''icons'', ''icon.png'']
            [''src-tauri'', ''icons'', ''icon.icns''] png_world))
         [''src-tauri'', ''icons'', ''icon.iconset''] = None
   \<and> files (snd (generate_icns tool_env [''src-tauri'', ''icons'', ''icon.png'']
            [''src-tauri'', ''icons'', ''icon.icns''] png_world))
         [''src-tauri'', ''icons'', ''icon.iconset'', ''icon_16x16.png''] = None
   \<and> fst (generate_icns_body stuck_env [''src-tauri'', ''icons'', ''icon.png'']
            [''src-tauri'', ''icons'', ''icon.icns''] png_world) = Inl OSError
   \<and> fst (generate_icns stuck_env [''src-tauri'', ''icons'', ''icon.png'']
            [''src-tauri'', ''icons'', ''icon.icns''] png_world) = Inr ()
   \<and> files (snd (generate_icns stuck_env [''src-tauri'', ''icons'', ''icon.png'']
            [''src-tauri'', ''icons'', ''icon.icns''] png_world))
         [''src-tauri'', ''icons'', ''icon.iconset''] = Some Dir
   \<and> fst (generate_ico full_disk_env [''src-tauri'', ''icons'', ''icon.png'']
            [''src-tauri'', ''icons'', ''icon.ico''] png_world) = Inr ()
   \<and> stdout (snd (generate_ico full_disk_env [''src-tauri'', ''icons'', ''icon.png'']
            [''src-tauri'', ''icons'', ''icon.ico''] png_world))
       = [''Warning: Could not generate .ico file: [Errno 28] No space left on device'']"
proof -
  let ?png = "[''src-tauri'', ''icons'', ''icon.png'']"
  let ?icns = "[''src-tauri'', ''icons'', ''icon.icns'']"
  let ?ico = "[''src-tauri'', ''icons'', ''icon.ico'']"
  let ?d = "[''src-tauri'', ''icons'', ''icon.iconset'']"
  note main = packaging_failures_are_warnings
      [where E = box_env and root = "[]" and w = svg_world and icns = ?icns]
  note missing = packaging_failures_are_warnings
      [where E = box_env and png = ?png and icns = ?icns and w = png_world
         and e = FileNotFoundError]
  note failing = packaging_failures_are_warnings
      [where E = failing_tool_env and png = ?png and icns = ?icns and w = png_world
         and rc = 1 and err = "''Invalid Iconset''"]
  note succeeding = packaging_failures_are_warnings
      [where E = tool_env and png = ?png and icns = ?icns and w = png_world and ?err0.0 = "[]"]
  note disk = packaging_failures_are_warnings
      [where E = full_disk_env and png = ?png and ico = ?ico and w = png_world and ?e2.0 = OSError]
  have m1: "exit_status (fst (generate_icons_main box_env [] svg_world)) = 0"
    using main generate_png_files_ok by simp
  have a1: "stdout (snd (generate_icns box_env ?png ?icns png_world))
       = [''Warning: Could not generate .icns file: [Errno 2] No such file or directory'']"
    using missing body_tool_missing by (simp add: reference_texts)
  have nz: "\<forall>err. fst (icns_stage box_env ?png ?icns png_world) \<noteq> Inr (0, err)"
    using stage_tool_missing by simp
  have a2: "files (snd (generate_icns box_env ?png ?icns png_world)) ?d = Some Dir"
    using missing nz mkdir_png_world by (simp add: iconset_dir_icon)
  have b1: "stdout (snd (generate_icns failing_tool_env ?png ?icns png_world))
       = [''Warning: iconutil failed: Invalid Iconset'']"
    using failing stage_tool_fails by simp
  have nz2: "\<forall>err. fst (icns_stage failing_tool_env ?png ?icns png_world) \<noteq> Inr (0, err)"
    using stage_tool_fails by simp
  have b2: "files (snd (generate_icns failing_tool_env ?png ?icns png_world)) ?d = Some Dir"
    using failing nz2 mkdir_png_world by (simp add: iconset_dir_icon)
  have c0: "\<forall>x. prefix ?d x \<longrightarrow> files (snd (generate_icns tool_env ?png ?icns png_world)) x = None"
    using succeeding stage_tool_ok by (simp add: iconset_dir_icon tool_env_def box_env_def)
  note stuck = packaging_failures_are_warnings
      [where E = stuck_env and png = ?png and icns = ?icns and w = png_world and ?err0.0 = "[]"
         and kept = "\<lambda>p. True"]
  have s1: "fst (generate_icns_body stuck_env ?png ?icns png_world) = Inl OSError
      \<and> files (snd (generate_icns stuck_env ?png ?icns png_world)) ?d = Some Dir"
    using stuck stage_stuck by (simp add: iconset_dir_icon stuck_env_def)
  have c1: "files (snd (generate_icns tool_env ?png ?icns png_world)) ?d = None"
    using c0 by simp
  have c2: "files (snd (generate_icns tool_env ?png ?icns png_world))
              [''src-tauri'', ''icons'', ''icon.iconset'', ''icon_16x16.png''] = None"
    using c0 by simp
  have d1: "stdout (snd (generate_ico full_disk_env ?png ?ico png_world))
       = [''Warning: Could not generate .ico file: [Errno 28] No space left on device'']"
    using disk ico_disk_full by (simp add: reference_texts)
  show ?thesis
    using generate_png_files_ok m1 body_tool_missing missing a1 a2 b1 b2 stage_tool_ok c1 c2 s1 stuck
      disk d1
    by simp
qed

text \<open>
  Claim C7 as stated fails in one case: the tool succeeds, the removal of the staging
  directory fails, and the directory is still there after the call, which has
  printed a warning and returned.
\<close>

theorem staging_directory_survives_counterexample:
  "fst (icns_stage stuck_env [''src-tauri'', ''icons'', ''icon.png'']
          [''src-tauri'', ''icons'', ''icon.icns''] png_world) = Inr (0, [])
   \<and> fst (generate_icns stuck_env [''src-tauri'', ''icons'', ''icon.png'']
          [''src-tauri'', ''icons'', ''icon.icns''] png_world) = Inr ()
   \<and> files (snd (generate_icns stuck_env [''src-tauri'', ''icons'', ''icon.png'']
          [''src-tauri'', ''icons'', ''icon.icns''] png_world))
         [''src-tauri'', ''icons'', ''icon.iconset''] = Some Dir"
  using stage_stuck generate_icns_ok
    generate_icns_removal_fails [of stuck_env "[''src-tauri'', ''icons'', ''icon.png'']"
      "[''src-tauri'', ''icons'', ''icon.icns'']" png_world "[]" "\<lambda>p. True"]
  by (simp add: iconset_dir_icon stuck_env_def)

end
